theory Spec2Isabelle
  imports Complex_Main "HOL-Library.Char_ord" "HOL-Library.List_Lexorder"
    "HOL-Library.Multiset" "HOL-Library.Sublist"
begin

section \<open>JavaScript values used by the server\<close>

text \<open>
  A property of a JSON object is missing (\<open>undefined\<close> when read), \<open>null\<close>, or holds a
  value. The feed's articles and the stored documents are typed after \<open>articleSchema\<close>:
  the embedding covers payloads whose values have the schema's types.
\<close>

datatype 'a field = Undefined | Null | Val 'a

text \<open>
  The numbers the handler computes with are the results of \<open>parseInt\<close> and their
  products: an integer or \<open>NaN\<close>. Integers are exact here; JavaScript's doubles agree
  with them below \<open>2^53\<close>. The sign of zero is not kept: it is neither sent to the
  store nor visible in a JSON response.
\<close>

datatype jsnum = Num int | NaN

text \<open>A \<open>Date\<close> object holds a time value in milliseconds, or is an invalid date.\<close>

datatype jsdate = Date int | InvalidDate

text \<open>
  Strings are byte strings. \<open>trim\<close>, \<open>toLowerCase\<close> and \<open>parseInt\<close> are modelled on
  ASCII: the white space is the ASCII white space and the letters with a lower case
  are \<open>A\<close> to \<open>Z\<close>.
\<close>

definition isWhiteSpace :: "char \<Rightarrow> bool" where
  "isWhiteSpace c = (c \<in> set [CHR 0x09, CHR 0x0A, CHR 0x0B, CHR 0x0C, CHR 0x0D, CHR '' ''])"

definition trim :: "string \<Rightarrow> string" where
  "trim s = rev (dropWhile isWhiteSpace (rev (dropWhile isWhiteSpace s)))"

definition isUpper :: "char \<Rightarrow> bool" where
  "isUpper c = (65 \<le> (of_char c :: nat) \<and> (of_char c :: nat) \<le> 90)"

definition toLowerCase_char :: "char \<Rightarrow> char" where
  "toLowerCase_char c = (if isUpper c then char_of ((of_char c :: nat) + 32) else c)"

definition toLowerCase :: "string \<Rightarrow> string" where
  "toLowerCase s = map toLowerCase_char s"

text \<open>\<open>s.split(d)\<close> for a one-character separator: never the empty list.\<close>

fun split :: "char \<Rightarrow> string \<Rightarrow> string list" where
  "split d [] = [[]]"
| "split d (c # cs) =
     (if c = d then [] # split d cs
      else (case split d cs of [] \<Rightarrow> [[c]] | w # ws \<Rightarrow> (c # w) # ws))"

text \<open>
  \<open>parseInt(s)\<close> with no radix: leading white space is skipped, a sign is read, a
  \<open>0x\<close> prefix selects radix 16, and the longest run of digits is the value; no digit
  gives \<open>NaN\<close>.
\<close>

definition digit_of :: "char \<Rightarrow> nat option" where
  "digit_of c =
     (let n = (of_char c :: nat) in
      if 48 \<le> n \<and> n \<le> 57 then Some (n - 48)
      else if 97 \<le> n \<and> n \<le> 122 then Some (n - 87)
      else if 65 \<le> n \<and> n \<le> 90 then Some (n - 55)
      else None)"

definition is_digit :: "nat \<Rightarrow> char \<Rightarrow> bool" where
  "is_digit radix c = (case digit_of c of None \<Rightarrow> False | Some v \<Rightarrow> v < radix)"

definition digits_value :: "nat \<Rightarrow> string \<Rightarrow> nat" where
  "digits_value radix ds =
     foldl (\<lambda>a c. a * radix + (case digit_of c of None \<Rightarrow> 0 | Some v \<Rightarrow> v)) 0 ds"

definition strip_sign :: "string \<Rightarrow> bool \<times> string" where
  "strip_sign s =
     (case s of
        [] \<Rightarrow> (False, [])
      | c # cs \<Rightarrow>
          if c = CHR ''-'' then (True, cs)
          else if c = CHR ''+'' then (False, cs)
          else (False, s))"

definition strip_radix :: "string \<Rightarrow> nat \<times> string" where
  "strip_radix s =
     (case s of
        c # x # cs \<Rightarrow>
          if c = CHR ''0'' \<and> (x = CHR ''x'' \<or> x = CHR ''X'') then (16, cs) else (10, s)
      | _ \<Rightarrow> (10, s))"

definition parseInt :: "string \<Rightarrow> jsnum" where
  "parseInt s =
     (let (neg, u) = strip_sign (dropWhile isWhiteSpace s);
          (radix, v) = strip_radix u;
          ds = takeWhile (is_digit radix) v
      in if ds = [] then NaN
         else Num ((if neg then - 1 else 1) * int (digits_value radix ds)))"

fun js_sub :: "jsnum \<Rightarrow> jsnum \<Rightarrow> jsnum" where
  "js_sub (Num a) (Num b) = Num (a - b)"
| "js_sub _ _ = NaN"

fun js_mul :: "jsnum \<Rightarrow> jsnum \<Rightarrow> jsnum" where
  "js_mul (Num a) (Num b) = Num (a * b)"
| "js_mul _ _ = NaN"

text \<open>
  What \<open>res.json\<close> writes for a number: \<open>NaN\<close> and the infinities become \<open>null\<close>.
\<close>

fun json_num :: "jsnum \<Rightarrow> int option" where
  "json_num (Num a) = Some a"
| "json_num NaN = None"

text \<open>
  \<open>Math.ceil(tot / l)\<close> as written to the response: \<open>null\<close> when \<open>l\<close> is \<open>NaN\<close> or
  zero (the quotient is then \<open>NaN\<close> or infinite).
\<close>

definition ceil_div :: "nat \<Rightarrow> jsnum \<Rightarrow> int option" where
  "ceil_div tot l =
     (case l of
        NaN \<Rightarrow> None
      | Num n \<Rightarrow> if n = 0 then None else Some (- ((- int tot) div n)))"

definition truthy :: "string option \<Rightarrow> bool" where
  "truthy p = (case p of None \<Rightarrow> False | Some s \<Rightarrow> s \<noteq> [])"

section \<open>The environment\<close>

text \<open>
  What the runtime and the store supply and the repository does not define:
  \<open>Date.parse\<close> (\<open>None\<close> is \<open>NaN\<close>), \<open>setHours(23, 59, 59, 999)\<close> on a valid time value
  (it depends on the local time zone), the store's regular expressions with
  option \<open>i\<close> (\<open>None\<close>: the pattern is rejected; otherwise the test "the pattern
  matches somewhere in the subject"), and what the store makes of a skip or a limit
  that is \<open>NaN\<close>. The handler, Mongoose and the driver pass such a number on as it
  is; a store either rejects the query (\<open>None\<close>) or reads the number as an integer
  (\<open>Some n\<close>, as a store that reads \<open>NaN\<close> as 0 does).
\<close>

record env =
  Date_parse :: "string \<Rightarrow> int option"
  end_of_day :: "int \<Rightarrow> int"
  regex_compile :: "string \<Rightarrow> (string \<Rightarrow> bool) option"
  read_NaN :: "int option"

definition new_Date :: "env \<Rightarrow> string \<Rightarrow> jsdate" where
  "new_Date e s = (case Date_parse e s of None \<Rightarrow> InvalidDate | Some t \<Rightarrow> Date t)"

fun setHours_end :: "env \<Rightarrow> jsdate \<Rightarrow> jsdate" where
  "setHours_end e (Date t) = Date (end_of_day e t)"
| "setHours_end e InvalidDate = InvalidDate"

datatype error = StoreUnreachable string | CastError | BadSkipLimit | BadRegex

section \<open>Articles: the feed's payload, the normalized record, the stored document\<close>

record raw_article =
  art_article_id :: string
  art_title :: "string field"
  art_link :: "string field"
  art_keywords :: "string list field"
  art_creator :: "string list field"
  art_video_url :: "string field"
  art_description :: "string field"
  art_content :: "string field"
  art_pubDate :: "string field"
  art_image_url :: "string field"
  art_source_id :: "string field"
  art_source_priority :: "int field"
  art_source_url :: "string field"
  art_source_icon :: "string field"
  art_language :: "string field"
  art_country :: "string list field"
  art_category :: "string list field"
  art_ai_tag :: "string field"
  art_sentiment :: "string field"
  art_sentiment_stats :: "string field"
  art_ai_region :: "string field"
  art_ai_org :: "string field"
  art_duplicate :: "bool field"
  art_datatype :: "string field"

record doc =
  doc_article_id :: string
  doc_title :: "string field"
  doc_link :: "string field"
  doc_keywords :: "string list"
  doc_creator :: "string list"
  doc_video_url :: "string field"
  doc_description :: "string field"
  doc_content :: "string field"
  doc_pubDate :: "jsdate option"
  doc_image_url :: "string field"
  doc_source_id :: "string field"
  doc_source_priority :: "int field"
  doc_source_url :: "string field"
  doc_source_icon :: "string field"
  doc_language :: "string field"
  doc_country :: "string list"
  doc_category :: "string list"
  doc_ai_tag :: "string field"
  doc_sentiment :: "string field"
  doc_sentiment_stats :: "string field"
  doc_ai_region :: "string field"
  doc_ai_org :: "string field"
  doc_duplicate :: "bool field"
  doc_datatype :: string

text \<open>
  A stored document: the schema's fields and the two timestamps of
  \<open>{ timestamps: true }\<close>. A field never written is \<open>Undefined\<close>.
\<close>

record article =
  rec_article_id :: string
  rec_title :: "string field"
  rec_link :: "string field"
  rec_keywords :: "string list"
  rec_creator :: "string list"
  rec_video_url :: "string field"
  rec_description :: "string field"
  rec_content :: "string field"
  rec_pubDate :: "int option"
  rec_image_url :: "string field"
  rec_source_id :: "string field"
  rec_source_priority :: "int field"
  rec_source_url :: "string field"
  rec_source_icon :: "string field"
  rec_language :: "string field"
  rec_country :: "string list"
  rec_category :: "string list"
  rec_ai_tag :: "string field"
  rec_sentiment :: "string field"
  rec_sentiment_stats :: "string field"
  rec_ai_region :: "string field"
  rec_ai_org :: "string field"
  rec_duplicate :: "bool field"
  rec_datatype :: string
  rec_createdAt :: int
  rec_updatedAt :: int

text \<open>\<open>x || []\<close> on an array-valued property: an array is truthy, also when empty.\<close>

definition or_empty :: "string list field \<Rightarrow> string list" where
  "or_empty f = (case f of Val xs \<Rightarrow> xs | _ \<Rightarrow> [])"

text \<open>\<open>x || "news"\<close>: the empty string is falsy.\<close>

definition or_news :: "string field \<Rightarrow> string" where
  "or_news f = (case f of Val s \<Rightarrow> (if s = [] then ''news'' else s) | _ \<Rightarrow> ''news'')"

text \<open>\<open>art.pubDate ? new Date(art.pubDate) : null\<close>\<close>

definition pubDate_of :: "env \<Rightarrow> string field \<Rightarrow> jsdate option" where
  "pubDate_of e f =
     (case f of Val s \<Rightarrow> (if s = [] then None else Some (new_Date e s)) | _ \<Rightarrow> None)"

text \<open>The object \<open>doc\<close> built in the loop of \<open>fetchAndStoreNews\<close>.\<close>

definition build_doc :: "env \<Rightarrow> raw_article \<Rightarrow> doc" where
  "build_doc e art =
     \<lparr> doc_article_id = art_article_id art,
       doc_title = art_title art,
       doc_link = art_link art,
       doc_keywords = or_empty (art_keywords art),
       doc_creator = or_empty (art_creator art),
       doc_video_url = art_video_url art,
       doc_description = art_description art,
       doc_content = art_content art,
       doc_pubDate = pubDate_of e (art_pubDate art),
       doc_image_url = art_image_url art,
       doc_source_id = art_source_id art,
       doc_source_priority = art_source_priority art,
       doc_source_url = art_source_url art,
       doc_source_icon = art_source_icon art,
       doc_language = art_language art,
       doc_country = or_empty (art_country art),
       doc_category = or_empty (art_category art),
       doc_ai_tag = art_ai_tag art,
       doc_sentiment = art_sentiment art,
       doc_sentiment_stats = art_sentiment_stats art,
       doc_ai_region = art_ai_region art,
       doc_ai_org = art_ai_org art,
       doc_duplicate = art_duplicate art,
       doc_datatype = or_news (art_datatype art) \<rparr>"

section \<open>The store\<close>

text \<open>
  The collection behind the model \<open>Article\<close>: its documents in insertion order, whether
  the store can be reached (\<open>fault\<close> holds the message of the error every operation
  then rejects with), and \<open>mongoose.connection.readyState\<close>.
\<close>

record db =
  docs :: "article list"
  fault :: "string option"
  readyState :: nat

text \<open>
  Casting a date for the schema type \<open>Date\<close>, as Mongoose does before an update or a
  query is sent: an invalid date is a cast error.
\<close>

fun cast_date :: "jsdate option \<Rightarrow> error + int option" where
  "cast_date None = Inr None"
| "cast_date (Some (Date t)) = Inr (Some t)"
| "cast_date (Some InvalidDate) = Inl CastError"

text \<open>
  \<open>{ $set: doc }\<close>. \<open>updateOne\<close> answers with \<open>upsertedCount\<close> and \<open>modifiedCount\<close>, the
  result of Mongoose 6 and later, where a key of an update whose value is \<open>undefined\<close>
  is removed before the update is sent: such a field keeps what is stored. With
  \<open>{ timestamps: true }\<close> the update also sets \<open>updatedAt\<close> to the current time, and
  \<open>createdAt\<close> on insert only.
\<close>

definition set_field :: "'a field \<Rightarrow> 'a field \<Rightarrow> 'a field" where
  "set_field new old = (case new of Undefined \<Rightarrow> old | _ \<Rightarrow> new)"

definition apply_set :: "doc \<Rightarrow> int option \<Rightarrow> int \<Rightarrow> article \<Rightarrow> article" where
  "apply_set dc pd now r =
     \<lparr> rec_article_id = doc_article_id dc,
       rec_title = set_field (doc_title dc) (rec_title r),
       rec_link = set_field (doc_link dc) (rec_link r),
       rec_keywords = doc_keywords dc,
       rec_creator = doc_creator dc,
       rec_video_url = set_field (doc_video_url dc) (rec_video_url r),
       rec_description = set_field (doc_description dc) (rec_description r),
       rec_content = set_field (doc_content dc) (rec_content r),
       rec_pubDate = pd,
       rec_image_url = set_field (doc_image_url dc) (rec_image_url r),
       rec_source_id = set_field (doc_source_id dc) (rec_source_id r),
       rec_source_priority = set_field (doc_source_priority dc) (rec_source_priority r),
       rec_source_url = set_field (doc_source_url dc) (rec_source_url r),
       rec_source_icon = set_field (doc_source_icon dc) (rec_source_icon r),
       rec_language = set_field (doc_language dc) (rec_language r),
       rec_country = doc_country dc,
       rec_category = doc_category dc,
       rec_ai_tag = set_field (doc_ai_tag dc) (rec_ai_tag r),
       rec_sentiment = set_field (doc_sentiment dc) (rec_sentiment r),
       rec_sentiment_stats = set_field (doc_sentiment_stats dc) (rec_sentiment_stats r),
       rec_ai_region = set_field (doc_ai_region dc) (rec_ai_region r),
       rec_ai_org = set_field (doc_ai_org dc) (rec_ai_org r),
       rec_duplicate = set_field (doc_duplicate dc) (rec_duplicate r),
       rec_datatype = doc_datatype dc,
       rec_createdAt = rec_createdAt r,
       rec_updatedAt = now \<rparr>"

definition insert_doc :: "doc \<Rightarrow> int option \<Rightarrow> int \<Rightarrow> article" where
  "insert_doc dc pd now =
     \<lparr> rec_article_id = doc_article_id dc,
       rec_title = doc_title dc,
       rec_link = doc_link dc,
       rec_keywords = doc_keywords dc,
       rec_creator = doc_creator dc,
       rec_video_url = doc_video_url dc,
       rec_description = doc_description dc,
       rec_content = doc_content dc,
       rec_pubDate = pd,
       rec_image_url = doc_image_url dc,
       rec_source_id = doc_source_id dc,
       rec_source_priority = doc_source_priority dc,
       rec_source_url = doc_source_url dc,
       rec_source_icon = doc_source_icon dc,
       rec_language = doc_language dc,
       rec_country = doc_country dc,
       rec_category = doc_category dc,
       rec_ai_tag = doc_ai_tag dc,
       rec_sentiment = doc_sentiment dc,
       rec_sentiment_stats = doc_sentiment_stats dc,
       rec_ai_region = doc_ai_region dc,
       rec_ai_org = doc_ai_org dc,
       rec_duplicate = doc_duplicate dc,
       rec_datatype = doc_datatype dc,
       rec_createdAt = now,
       rec_updatedAt = now \<rparr>"

record update_result =
  upsertedCount :: nat
  modifiedCount :: nat

text \<open>
  The first document with the given \<open>article_id\<close> is updated; \<open>modifiedCount\<close> is 1
  when the update changed it. \<open>None\<close>: no document matches.
\<close>

fun update_first :: "string \<Rightarrow> (article \<Rightarrow> article) \<Rightarrow> article list \<Rightarrow> (article list \<times> nat) option" where
  "update_first k f [] = None"
| "update_first k f (r # rs) =
     (if rec_article_id r = k then Some (f r # rs, if f r = r then 0 else 1)
      else (case update_first k f rs of
              None \<Rightarrow> None
            | Some (rs', m) \<Rightarrow> Some (r # rs', m)))"

text \<open>
  \<open>Article.updateOne({ article_id }, { $set: doc }, { upsert: true })\<close> at the time
  \<open>now\<close>.
\<close>

definition Article_updateOne :: "db \<Rightarrow> int \<Rightarrow> doc \<Rightarrow> error + (db \<times> update_result)" where
  "Article_updateOne d now dc =
     (case cast_date (doc_pubDate dc) of
        Inl e \<Rightarrow> Inl e
      | Inr pd \<Rightarrow>
          (case fault d of
             Some msg \<Rightarrow> Inl (StoreUnreachable msg)
           | None \<Rightarrow>
               (case update_first (doc_article_id dc) (apply_set dc pd now) (docs d) of
                  Some (rs, m) \<Rightarrow>
                    Inr (d\<lparr>docs := rs\<rparr>, \<lparr>upsertedCount = 0, modifiedCount = m\<rparr>)
                | None \<Rightarrow>
                    Inr (d\<lparr>docs := docs d @ [insert_doc dc pd now]\<rparr>,
                         \<lparr>upsertedCount = 1, modifiedCount = 0\<rparr>))))"

section \<open>The ingestion job\<close>

text \<open>
  What \<open>axios.get\<close> gives: a rejection (network error, a status outside 2xx), with the
  text the catch clause logs, or a response, of which the job reads
  \<open>response.data?.results\<close> (\<open>None\<close>: missing or not a non-empty array, as for a body
  that did not parse).
\<close>

datatype fetch_outcome = FetchRejected string | FetchResolved "raw_article list option"

datatype log_line =
    LogFetching
  | LogNoArticles
  | LogDone nat nat nat
  | LogFetchError "string + error"

text \<open>
  The loop \<open>for (const art of articles)\<close> with its counters; \<open>clock i\<close> is the time at
  the upsert of the article at position \<open>i\<close>. An upsert that throws ends the loop: the
  documents written so far stay.
\<close>

fun upsert_loop ::
  "env \<Rightarrow> (nat \<Rightarrow> int) \<Rightarrow> nat \<Rightarrow> raw_article list \<Rightarrow> db \<Rightarrow> nat \<Rightarrow> nat \<Rightarrow> (error \<times> db) + (db \<times> nat \<times> nat)" where
  "upsert_loop e clock i [] d inserted updated = Inr (d, inserted, updated)"
| "upsert_loop e clock i (art # arts) d inserted updated =
     (case Article_updateOne d (clock i) (build_doc e art) of
        Inl err \<Rightarrow> Inl (err, d)
      | Inr (d', result) \<Rightarrow>
          if upsertedCount result \<noteq> 0
          then upsert_loop e clock (Suc i) arts d' (inserted + 1) updated
          else if modifiedCount result \<noteq> 0
          then upsert_loop e clock (Suc i) arts d' inserted (updated + 1)
          else upsert_loop e clock (Suc i) arts d' inserted updated)"

record run_result =
  rr_db :: db
  rr_log :: "log_line list"

text \<open>
  \<open>fetchAndStoreNews\<close>: the whole body is inside \<open>try\<close>, and the catch clause logs and
  returns, so a run always returns.
\<close>

definition fetchAndStoreNews :: "env \<Rightarrow> (nat \<Rightarrow> int) \<Rightarrow> fetch_outcome \<Rightarrow> db \<Rightarrow> run_result" where
  "fetchAndStoreNews e clock response d =
     (case response of
        FetchRejected msg \<Rightarrow> \<lparr>rr_db = d, rr_log = [LogFetching, LogFetchError (Inl msg)]\<rparr>
      | FetchResolved results \<Rightarrow>
          (let articles = (case results of None \<Rightarrow> [] | Some xs \<Rightarrow> xs) in
           if articles = [] then \<lparr>rr_db = d, rr_log = [LogFetching, LogNoArticles]\<rparr>
           else
             (case upsert_loop e clock 0 articles d 0 0 of
                Inl (err, d') \<Rightarrow> \<lparr>rr_db = d', rr_log = [LogFetching, LogFetchError (Inr err)]\<rparr>
              | Inr (d', inserted, updated) \<Rightarrow>
                  \<lparr>rr_db = d', rr_log = [LogFetching, LogDone inserted updated (length articles)]\<rparr>)))"

section \<open>The query service\<close>

text \<open>
  \<open>req.query\<close>: each parameter is missing or one string.
\<close>

record query =
  q_startDate :: "string option"
  q_endDate :: "string option"
  q_author :: "string option"
  q_language :: "string option"
  q_country :: "string option"
  q_category :: "string option"
  q_datatype :: "string option"
  q_page :: "string option"
  q_limit :: "string option"
  q_search :: "string option"

text \<open>
  The object \<open>filter\<close> of the handler: \<open>pubDate\<close> with its \<open>$gte\<close> and \<open>$lte\<close>, the
  pattern of \<open>creator.$elemMatch.$regex\<close>, \<open>language\<close>, the list of \<open>country.$in\<close>, the
  list of \<open>category.$all\<close>, \<open>datatype\<close>, and the pattern of the two \<open>$or\<close> branches.
\<close>

record news_filter =
  f_pubDate :: "(jsdate option \<times> jsdate option) option"
  f_creator :: "string option"
  f_language :: "string option"
  f_country :: "string list option"
  f_category :: "string list option"
  f_datatype :: "string option"
  f_or :: "string option"

text \<open>\<open>if (p) ... f(p)\<close>: a missing or empty parameter sets nothing.\<close>

definition when_truthy :: "string option \<Rightarrow> (string \<Rightarrow> 'a) \<Rightarrow> 'a option" where
  "when_truthy p f = (case p of None \<Rightarrow> None | Some s \<Rightarrow> if s = [] then None else Some (f s))"

text \<open>\<open>x.split(",").map((c) => c.trim().toLowerCase())\<close>\<close>

definition query_list :: "string \<Rightarrow> string list" where
  "query_list x = map (\<lambda>c. toLowerCase (trim c)) (split CHR '','' x)"

definition build_filter :: "env \<Rightarrow> query \<Rightarrow> news_filter" where
  "build_filter e q =
     \<lparr> f_pubDate =
         (if truthy (q_startDate q) \<or> truthy (q_endDate q)
          then Some (when_truthy (q_startDate q) (new_Date e),
                     when_truthy (q_endDate q) (\<lambda>s. setHours_end e (new_Date e s)))
          else None),
       f_creator = when_truthy (q_author q) (\<lambda>s. s),
       f_language = when_truthy (q_language q) toLowerCase,
       f_country = when_truthy (q_country q) query_list,
       f_category = when_truthy (q_category q) query_list,
       f_datatype = when_truthy (q_datatype q) toLowerCase,
       f_or = when_truthy (q_search q) (\<lambda>s. s) \<rparr>"

subsection \<open>Matching a document\<close>

text \<open>A range on \<open>pubDate\<close> matches dates only, never \<open>null\<close>.\<close>

definition match_pubDate :: "int option \<times> int option \<Rightarrow> article \<Rightarrow> bool" where
  "match_pubDate b r =
     (case rec_pubDate r of
        None \<Rightarrow> False
      | Some t \<Rightarrow>
          (case fst b of None \<Rightarrow> True | Some g \<Rightarrow> g \<le> t) \<and>
          (case snd b of None \<Rightarrow> True | Some l \<Rightarrow> t \<le> l))"

text \<open>\<open>$elemMatch\<close> with a regular expression: some entry of \<open>creator\<close> matches.\<close>

definition match_creator :: "(string \<Rightarrow> bool) \<Rightarrow> article \<Rightarrow> bool" where
  "match_creator m r = list_ex m (rec_creator r)"

definition match_language :: "string \<Rightarrow> article \<Rightarrow> bool" where
  "match_language l r = (rec_language r = Val l)"

text \<open>\<open>$in\<close> on an array field: some entry of the array is one of the values.\<close>

definition match_country :: "string list \<Rightarrow> article \<Rightarrow> bool" where
  "match_country cs r = list_ex (\<lambda>c. c \<in> set (rec_country r)) cs"

text \<open>\<open>$all\<close>: every value is an entry of the array.\<close>

definition match_category :: "string list \<Rightarrow> article \<Rightarrow> bool" where
  "match_category cs r = list_all (\<lambda>c. c \<in> set (rec_category r)) cs"

definition match_datatype :: "string \<Rightarrow> article \<Rightarrow> bool" where
  "match_datatype t r = (rec_datatype r = t)"

text \<open>A regular expression matches string values only.\<close>

definition regex_field :: "(string \<Rightarrow> bool) \<Rightarrow> string field \<Rightarrow> bool" where
  "regex_field m f = (case f of Val s \<Rightarrow> m s | _ \<Rightarrow> False)"

definition match_or :: "(string \<Rightarrow> bool) \<Rightarrow> article \<Rightarrow> bool" where
  "match_or m r = (regex_field m (rec_title r) \<or> regex_field m (rec_description r))"

definition opt_match :: "('a \<Rightarrow> article \<Rightarrow> bool) \<Rightarrow> 'a option \<Rightarrow> article \<Rightarrow> bool" where
  "opt_match p x r = (case x of None \<Rightarrow> True | Some v \<Rightarrow> p v r)"

definition cast_range ::
  "(jsdate option \<times> jsdate option) option \<Rightarrow> error + (int option \<times> int option) option" where
  "cast_range b =
     (case b of
        None \<Rightarrow> Inr None
      | Some (g, l) \<Rightarrow>
          (case cast_date g of
             Inl e \<Rightarrow> Inl e
           | Inr g' \<Rightarrow> (case cast_date l of Inl e \<Rightarrow> Inl e | Inr l' \<Rightarrow> Inr (Some (g', l')))))"

definition compile_opt :: "env \<Rightarrow> string option \<Rightarrow> error + (string \<Rightarrow> bool) option" where
  "compile_opt e p =
     (case p of
        None \<Rightarrow> Inr None
      | Some s \<Rightarrow> (case regex_compile e s of None \<Rightarrow> Inl BadRegex | Some m \<Rightarrow> Inr (Some m)))"

text \<open>
  The documents a filter selects, or the error the query is rejected with: a date
  that does not cast, a pattern the store does not accept. The parts of the filter
  are conjoined.
\<close>

definition compile_filter :: "env \<Rightarrow> news_filter \<Rightarrow> error + (article \<Rightarrow> bool)" where
  "compile_filter e f =
     (case cast_range (f_pubDate f) of
        Inl err \<Rightarrow> Inl err
      | Inr rng \<Rightarrow>
          (case compile_opt e (f_creator f) of
             Inl err \<Rightarrow> Inl err
           | Inr mc \<Rightarrow>
               (case compile_opt e (f_or f) of
                  Inl err \<Rightarrow> Inl err
                | Inr ms \<Rightarrow>
                    Inr (\<lambda>r. opt_match match_pubDate rng r
                           \<and> opt_match match_creator mc r
                           \<and> opt_match match_language (f_language f) r
                           \<and> opt_match match_country (f_country f) r
                           \<and> opt_match match_category (f_category f) r
                           \<and> opt_match match_datatype (f_datatype f) r
                           \<and> opt_match match_or ms r))))"

subsection \<open>Sorting, skipping, limiting\<close>

text \<open>
  \<open>sort({ pubDate: -1 })\<close>: later dates first, \<open>null\<close> last. Documents with equal
  dates are kept in insertion order.
\<close>

fun pub_ge :: "int option \<Rightarrow> int option \<Rightarrow> bool" where
  "pub_ge _ None = True"
| "pub_ge None (Some _) = False"
| "pub_ge (Some a) (Some b) = (b \<le> a)"

fun insert_desc :: "article \<Rightarrow> article list \<Rightarrow> article list" where
  "insert_desc x [] = [x]"
| "insert_desc x (y # ys) =
     (if pub_ge (rec_pubDate x) (rec_pubDate y) then x # y # ys else y # insert_desc x ys)"

fun sort_desc :: "article list \<Rightarrow> article list" where
  "sort_desc [] = []"
| "sort_desc (x # xs) = insert_desc x (sort_desc xs)"

text \<open>
  \<open>limit(l)\<close>: zero is no limit; the driver sends a negative limit as its absolute
  value.
\<close>

definition apply_limit :: "int \<Rightarrow> 'a list \<Rightarrow> 'a list" where
  "apply_limit l xs = (if l = 0 then xs else take (nat \<bar>l\<bar>) xs)"

text \<open>
  \<open>Article.find(filter).sort({ pubDate: -1 }).skip(skip).limit(limit).lean()\<close>. A date
  of the filter that does not cast is refused before the query is sent, and a store
  that cannot be reached rejects the query. The store takes a skip that is a
  non-negative integer and a limit that is an integer, reads a \<open>NaN\<close> as the
  environment says, and rejects a pattern it cannot read.
\<close>

definition store_number :: "env \<Rightarrow> jsnum \<Rightarrow> int option" where
  "store_number e x = (case x of Num n \<Rightarrow> Some n | NaN \<Rightarrow> read_NaN e)"

definition Article_find :: "env \<Rightarrow> db \<Rightarrow> news_filter \<Rightarrow> jsnum \<Rightarrow> jsnum \<Rightarrow> error + article list" where
  "Article_find e d f skip lmt =
     (case cast_range (f_pubDate f) of
        Inl err \<Rightarrow> Inl err
      | Inr _ \<Rightarrow>
          (case fault d of
             Some msg \<Rightarrow> Inl (StoreUnreachable msg)
           | None \<Rightarrow>
               (case store_number e skip of
                  None \<Rightarrow> Inl BadSkipLimit
                | Some s \<Rightarrow>
                    (case store_number e lmt of
                       None \<Rightarrow> Inl BadSkipLimit
                     | Some l \<Rightarrow>
                         if s < 0 then Inl BadSkipLimit
                         else
                           (case compile_filter e f of
                              Inl err \<Rightarrow> Inl err
                            | Inr p \<Rightarrow>
                                Inr (apply_limit l
                                       (drop (nat s) (sort_desc (filter p (docs d))))))))))"

text \<open>\<open>Article.countDocuments(filter)\<close>\<close>

definition Article_countDocuments :: "env \<Rightarrow> db \<Rightarrow> news_filter \<Rightarrow> error + nat" where
  "Article_countDocuments e d f =
     (case cast_range (f_pubDate f) of
        Inl err \<Rightarrow> Inl err
      | Inr _ \<Rightarrow>
          (case fault d of
             Some msg \<Rightarrow> Inl (StoreUnreachable msg)
           | None \<Rightarrow>
               (case compile_filter e f of
                  Inl err \<Rightarrow> Inl err
                | Inr p \<Rightarrow> Inr (length (filter p (docs d))))))"

text \<open>\<open>Article.countDocuments()\<close> and \<open>Article.findOne().sort({ pubDate: -1 }).lean()\<close>\<close>

definition Article_count_all :: "db \<Rightarrow> error + nat" where
  "Article_count_all d =
     (case fault d of Some msg \<Rightarrow> Inl (StoreUnreachable msg) | None \<Rightarrow> Inr (length (docs d)))"

definition Article_findOne_latest :: "db \<Rightarrow> error + article option" where
  "Article_findOne_latest d =
     (case fault d of
        Some msg \<Rightarrow> Inl (StoreUnreachable msg)
      | None \<Rightarrow> Inr (case sort_desc (docs d) of [] \<Rightarrow> None | r # _ \<Rightarrow> Some r))"

text \<open>
  \<open>Article.distinct(field)\<close>: the distinct values of a field over the collection, the
  entries of an array field one by one.
\<close>

definition Article_distinct :: "db \<Rightarrow> (article \<Rightarrow> 'a list) \<Rightarrow> error + 'a list" where
  "Article_distinct d vals =
     (case fault d of
        Some msg \<Rightarrow> Inl (StoreUnreachable msg)
      | None \<Rightarrow> Inr (remdups (concat (map vals (docs d)))))"

subsection \<open>The handlers\<close>

text \<open>
  A handler ends with a response (status and JSON body) or with a rejection that
  leaves it: then the handler itself has sent nothing.
\<close>

datatype body =
    NewsBody nat "int option" "int option" "article list"
  | FiltersBody "string list" "string list" "string list" "string list"
  | StatusBody nat "int option" string
  | ErrorBody error

datatype outcome = Responded nat body | Rejected error

fun success :: "body \<Rightarrow> bool" where
  "success (ErrorBody _) = False"
| "success _ = True"

text \<open>\<open>page = 1\<close>, \<open>limit = 20\<close> in the destructuring, then \<open>parseInt\<close>.\<close>

definition page_number :: "query \<Rightarrow> jsnum" where
  "page_number q = (case q_page q of None \<Rightarrow> Num 1 | Some s \<Rightarrow> parseInt s)"

definition limit_number :: "query \<Rightarrow> jsnum" where
  "limit_number q = (case q_limit q of None \<Rightarrow> Num 20 | Some s \<Rightarrow> parseInt s)"

text \<open>
  \<open>GET /api/news\<close>. The query and the count run together under \<open>Promise.all\<close>;
  when both are rejected the response carries the error of the query.
\<close>

definition api_news :: "env \<Rightarrow> db \<Rightarrow> query \<Rightarrow> outcome" where
  "api_news e d q =
     (let f = build_filter e q;
          skip = js_mul (js_sub (page_number q) (Num 1)) (limit_number q)
      in case Article_find e d f skip (limit_number q) of
           Inl err \<Rightarrow> Responded 500 (ErrorBody err)
         | Inr articles \<Rightarrow>
             (case Article_countDocuments e d f of
                Inl err \<Rightarrow> Responded 500 (ErrorBody err)
              | Inr tot \<Rightarrow>
                  Responded 200
                    (NewsBody tot (json_num (page_number q)) (ceil_div tot (limit_number q))
                       articles)))"

text \<open>\<open>xs.filter(Boolean)\<close>: \<open>null\<close> and the empty string go.\<close>

definition filter_Boolean :: "string field list \<Rightarrow> string list" where
  "filter_Boolean xs = concat (map (\<lambda>x. case x of Val s \<Rightarrow> (if s = [] then [] else [s]) | _ \<Rightarrow> []) xs)"

text \<open>\<open>GET /api/filters\<close>\<close>

definition api_filters :: "db \<Rightarrow> outcome" where
  "api_filters d =
     (case Article_distinct d (\<lambda>r. [rec_language r]) of
        Inl err \<Rightarrow> Responded 500 (ErrorBody err)
      | Inr languages \<Rightarrow>
     (case Article_distinct d rec_country of
        Inl err \<Rightarrow> Responded 500 (ErrorBody err)
      | Inr countries \<Rightarrow>
     (case Article_distinct d rec_category of
        Inl err \<Rightarrow> Responded 500 (ErrorBody err)
      | Inr categories \<Rightarrow>
     (case Article_distinct d (\<lambda>r. [rec_datatype r]) of
        Inl err \<Rightarrow> Responded 500 (ErrorBody err)
      | Inr datatypes \<Rightarrow>
          Responded 200
            (FiltersBody (sort (filter_Boolean languages))
               (sort (filter (\<lambda>s. s \<noteq> []) countries))
               (sort (filter (\<lambda>s. s \<noteq> []) categories))
               (sort (filter (\<lambda>s. s \<noteq> []) datatypes)))))))"

text \<open>\<open>GET /api/status\<close>: the handler has no \<open>try\<close>.\<close>

definition api_status :: "db \<Rightarrow> outcome" where
  "api_status d =
     (case Article_count_all d of
        Inl err \<Rightarrow> Rejected err
      | Inr cnt \<Rightarrow>
          (case Article_findOne_latest d of
             Inl err \<Rightarrow> Rejected err
           | Inr latest \<Rightarrow>
               Responded 200
                 (StatusBody cnt
                    (case latest of None \<Rightarrow> None | Some r \<Rightarrow> rec_pubDate r)
                    (if readyState d = 1 then ''connected'' else ''disconnected''))))"

section \<open>Substring search, and a fragment of the store's regular expressions\<close>

text \<open>
  Case-insensitive substring search, the reading of \<open>search\<close> as plain text:
  the second definition to compare the handler's filter with.
\<close>

definition ci_substring :: "string \<Rightarrow> string \<Rightarrow> bool" where
  "ci_substring s t = sublist (toLowerCase s) (toLowerCase t)"

text \<open>
  The characters with a meaning of their own in a regular expression.
\<close>

definition is_metachar :: "char \<Rightarrow> bool" where
  "is_metachar c = (c \<in> set (CHR 0x5C # ''^$.|?*+()[]{}''))"

text \<open>
  The patterns made of plain characters and dots, matched without regard to case: a
  plain character stands for itself, a dot for any character but a line feed. A
  pattern with another metacharacter is outside this fragment (\<open>None\<close>), and nothing
  is stated about it.
\<close>

datatype pat_item = Lit char | AnyChar

fun parse_items :: "string \<Rightarrow> pat_item list option" where
  "parse_items [] = Some []"
| "parse_items (c # cs) =
     (if c = CHR ''.'' then map_option (\<lambda>is. AnyChar # is) (parse_items cs)
      else if is_metachar c then None
      else map_option (\<lambda>is. Lit c # is) (parse_items cs))"

fun match_here :: "pat_item list \<Rightarrow> string \<Rightarrow> bool" where
  "match_here [] s = True"
| "match_here (i # is) [] = False"
| "match_here (Lit c # is) (x # xs) = (toLowerCase_char c = toLowerCase_char x \<and> match_here is xs)"
| "match_here (AnyChar # is) (x # xs) = (x \<noteq> CHR 0x0A \<and> match_here is xs)"

fun match_anywhere :: "pat_item list \<Rightarrow> string \<Rightarrow> bool" where
  "match_anywhere is [] = match_here is []"
| "match_anywhere is (x # xs) = (match_here is (x # xs) \<or> match_anywhere is xs)"

definition literal_dot_regex :: "string \<Rightarrow> (string \<Rightarrow> bool) option" where
  "literal_dot_regex p =
     (case parse_items p of None \<Rightarrow> None | Some is \<Rightarrow> Some (match_anywhere is))"

section \<open>Concrete inputs for evaluating the model\<close>

text \<open>
  An environment in UTC whose \<open>Date.parse\<close> knows two ISO date-times and takes every
  other string for unparseable, with the regular expressions of the fragment above
  and a store that reads \<open>NaN\<close> as 0; \<open>strict_env\<close> is the same with a store that
  rejects \<open>NaN\<close>.
\<close>

definition sample_env :: env where
  "sample_env =
     \<lparr> Date_parse =
         (\<lambda>s. if s = ''2024-01-15T10:00:00Z'' then Some 1705312800000
              else if s = ''2024-01-16T10:00:00Z'' then Some 1705399200000
              else None),
       end_of_day = (\<lambda>t. t - t mod 86400000 + 86399999),
       regex_compile = literal_dot_regex,
       read_NaN = Some 0 \<rparr>"


definition empty_query :: query where
  "empty_query =
     \<lparr> q_startDate = None, q_endDate = None, q_author = None, q_language = None,
       q_country = None, q_category = None, q_datatype = None, q_page = None,
       q_limit = None, q_search = None \<rparr>"

text \<open>A payload with nothing but its \<open>article_id\<close>.\<close>

definition bare_article :: "string \<Rightarrow> raw_article" where
  "bare_article k =
     \<lparr> art_article_id = k,
       art_title = Undefined,
       art_link = Undefined,
       art_keywords = Undefined,
       art_creator = Undefined,
       art_video_url = Undefined,
       art_description = Undefined,
       art_content = Undefined,
       art_pubDate = Undefined,
       art_image_url = Undefined,
       art_source_id = Undefined,
       art_source_priority = Undefined,
       art_source_url = Undefined,
       art_source_icon = Undefined,
       art_language = Undefined,
       art_country = Undefined,
       art_category = Undefined,
       art_ai_tag = Undefined,
       art_sentiment = Undefined,
       art_sentiment_stats = Undefined,
       art_ai_region = Undefined,
       art_ai_org = Undefined,
       art_duplicate = Undefined,
       art_datatype = Undefined \<rparr>"

definition empty_db :: db where
  "empty_db = \<lparr> docs = [], fault = None, readyState = 1 \<rparr>"

text \<open>
  Three payloads: the first two carry the categories and countries of the listing
  examples; the word "election" is in the title of the first, in the description of
  the second and nowhere in the third.
\<close>

definition art_a1 :: raw_article where
  "art_a1 = (bare_article ''a1'')
     \<lparr> art_title := Val ''Election results'',
       art_pubDate := Val ''2024-01-15T10:00:00Z'',
       art_country := Val [''us''],
       art_category := Val [''tech'', ''ai''] \<rparr>"

definition art_a2 :: raw_article where
  "art_a2 = (bare_article ''a2'')
     \<lparr> art_description := Val ''Votes after the ELECTION'',
       art_pubDate := Val ''2024-01-16T10:00:00Z'',
       art_country := Val [''fr''],
       art_category := Val [''tech''] \<rparr>"

definition art_a3 :: raw_article where
  "art_a3 = (bare_article ''a3'')
     \<lparr> art_title := Val ''Weather'',
       art_description := Null \<rparr>"

text \<open>The stores the job leaves after these payloads: two documents, then three.\<close>

definition db_two :: db where
  "db_two =
     rr_db (fetchAndStoreNews sample_env (\<lambda>i. 1000 + int i)
              (FetchResolved (Some [art_a1, art_a2])) empty_db)"

definition db_three :: db where
  "db_three =
     rr_db (fetchAndStoreNews sample_env (\<lambda>i. 2000 + int i)
              (FetchResolved (Some [art_a3])) db_two)"

text \<open>The three documents as the store holds them.\<close>

definition stored_a1 :: article where
  "stored_a1 = insert_doc (build_doc sample_env art_a1) (Some 1705312800000) 1000"

definition stored_a2 :: article where
  "stored_a2 = insert_doc (build_doc sample_env art_a2) (Some 1705399200000) 1001"

definition stored_a3 :: article where
  "stored_a3 = insert_doc (build_doc sample_env art_a3) None 2000"

section \<open>The documents a request selects\<close>

text \<open>
  A request selects a document when the store accepts the filter built from the
  request and the filter matches the document.
\<close>

definition selects :: "env \<Rightarrow> query \<Rightarrow> article \<Rightarrow> bool" where
  "selects e q r =
     (case compile_filter e (build_filter e q) of Inl _ \<Rightarrow> False | Inr p \<Rightarrow> p r)"

section \<open>Evaluation of the concrete inputs\<close>

lemma rec_article_id_insert_doc: "rec_article_id (insert_doc dc pd now) = doc_article_id dc"
  by (simp add: insert_doc_def)

lemma rec_article_id_apply_set: "rec_article_id (apply_set dc pd now r) = doc_article_id dc"
  by (simp add: apply_set_def)

lemma db_two_eq: "db_two = \<lparr>docs = [stored_a1, stored_a2], fault = None, readyState = 1\<rparr>"
  by (simp add: db_two_def fetchAndStoreNews_def art_a1_def art_a2_def bare_article_def
      build_doc_def Article_updateOne_def empty_db_def sample_env_def pubDate_of_def new_Date_def
      or_empty_def or_news_def stored_a1_def stored_a2_def rec_article_id_insert_doc)

lemma db_three_eq:
  "db_three = \<lparr>docs = [stored_a1, stored_a2, stored_a3], fault = None, readyState = 1\<rparr>"
  by (simp add: db_three_def db_two_eq fetchAndStoreNews_def art_a3_def bare_article_def
      build_doc_def Article_updateOne_def sample_env_def pubDate_of_def new_Date_def
      or_empty_def or_news_def stored_a3_def stored_a1_def stored_a2_def
      rec_article_id_insert_doc art_a1_def art_a2_def)

lemma stored_fields:
  "rec_pubDate stored_a1 = Some 1705312800000"
  "rec_pubDate stored_a2 = Some 1705399200000"
  "rec_pubDate stored_a3 = None"
  "rec_title stored_a1 = Val ''Election results''"
  "rec_title stored_a2 = Undefined"
  "rec_title stored_a3 = Val ''Weather''"
  "rec_description stored_a1 = Undefined"
  "rec_description stored_a2 = Val ''Votes after the ELECTION''"
  "rec_description stored_a3 = Null"
  "rec_country stored_a1 = [''us'']"
  "rec_country stored_a2 = [''fr'']"
  "rec_category stored_a1 = [''tech'', ''ai'']"
  "rec_category stored_a2 = [''tech'']"
  by (simp_all add: stored_a1_def stored_a2_def stored_a3_def insert_doc_def build_doc_def
      art_a1_def art_a2_def art_a3_def bare_article_def or_empty_def)

lemma parseInt_examples:
  "parseInt ''abc'' = NaN"
  "parseInt ''0'' = Num 0"
  "parseInt ''1'' = Num 1"
  "parseInt ''2'' = Num 2"
  by (simp_all add: parseInt_def strip_sign_def strip_radix_def isWhiteSpace_def is_digit_def
      digit_of_def digits_value_def)

lemma query_list_examples:
  "query_list ''tech,ai'' = [''tech'', ''ai'']"
  "query_list ''us,uk'' = [''us'', ''uk'']"
  "query_list ''US'' = [''us'']"
  "query_list '' US ,UK'' = [''us'', ''uk'']"
  "query_list ''Tech'' = [''tech'']"
  by code_simp+

lemma ci_examples:
  "ci_substring ''election'' ''Election results''"
  "ci_substring ''election'' ''Votes after the ELECTION''"
  "\<not> ci_substring ''election'' ''Weather''"
  "\<not> ci_substring ''.'' ''Weather''"
  by code_simp+

lemma election_plain: "\<not> list_ex is_metachar ''election''"
  by code_simp

lemma dot_pattern: "literal_dot_regex ''.'' = Some (match_anywhere [AnyChar])"
  by (simp add: literal_dot_regex_def)

section \<open>Filters\<close>

lemma compile_no_filter:
  "q_startDate q = None \<Longrightarrow> q_endDate q = None \<Longrightarrow> q_author q = None \<Longrightarrow>
   q_language q = None \<Longrightarrow> q_country q = None \<Longrightarrow> q_category q = None \<Longrightarrow>
   q_datatype q = None \<Longrightarrow> q_search q = None \<Longrightarrow>
   compile_filter e (build_filter e q) = Inr (\<lambda>r. True)"
  by (simp add: compile_filter_def build_filter_def when_truthy_def truthy_def cast_range_def
      compile_opt_def opt_match_def)

lemma compile_filter_casts:
  "compile_filter e f = Inr P \<Longrightarrow> \<exists>b. cast_range (f_pubDate f) = Inr b"
  by (auto simp add: compile_filter_def split: sum.splits)

lemma cast_no_range:
  "q_startDate q = None \<Longrightarrow> q_endDate q = None \<Longrightarrow>
   cast_range (f_pubDate (build_filter e q)) = Inr None"
  by (simp add: build_filter_def truthy_def cast_range_def)

lemma selects_no_filter:
  "q_startDate q = None \<Longrightarrow> q_endDate q = None \<Longrightarrow> q_author q = None \<Longrightarrow>
   q_language q = None \<Longrightarrow> q_country q = None \<Longrightarrow> q_category q = None \<Longrightarrow>
   q_datatype q = None \<Longrightarrow> q_search q = None \<Longrightarrow>
   selects e q r"
  by (simp add: selects_def compile_no_filter)

lemma selects_country:
  assumes "q_country q = Some c" "c \<noteq> []"
  shows "selects e q r \<longleftrightarrow>
           selects e (q\<lparr>q_country := None\<rparr>) r \<and> match_country (query_list c) r"
  using assms
  by (auto simp add: selects_def compile_filter_def build_filter_def when_truthy_def opt_match_def
      split: sum.splits)

lemma selects_category:
  assumes "q_category q = Some c" "c \<noteq> []"
  shows "selects e q r \<longleftrightarrow>
           selects e (q\<lparr>q_category := None\<rparr>) r \<and> match_category (query_list c) r"
  using assms
  by (auto simp add: selects_def compile_filter_def build_filter_def when_truthy_def opt_match_def
      split: sum.splits)

lemma selects_search:
  assumes "q_search q = Some s" "s \<noteq> []"
  shows "selects e q r \<longleftrightarrow>
           selects e (q\<lparr>q_search := None\<rparr>) r \<and>
           (\<exists>m. regex_compile e s = Some m \<and> match_or m r)"
  using assms
  by (auto simp add: selects_def compile_filter_def build_filter_def when_truthy_def opt_match_def
      compile_opt_def split: sum.splits option.splits)

lemma match_country_iff: "match_country cs r \<longleftrightarrow> set (rec_country r) \<inter> set cs \<noteq> {}"
  by (auto simp add: match_country_def list_ex_iff)

lemma match_category_iff: "match_category cs r \<longleftrightarrow> set cs \<subseteq> set (rec_category r)"
  by (auto simp add: match_category_def list_all_iff)

text \<open>
  C5 (as amended). In \<open>GET /api/news\<close> the \<open>country\<close> and \<open>category\<close> parameters
  are split at the commas and each part is trimmed and put in lower case. A
  \<open>country\<close> parameter selects, among the documents the other parameters select,
  those whose \<open>country\<close> array shares an entry with the list so made (any of them),
  and a \<open>category\<close> parameter those whose \<open>category\<close> array holds every entry of
  that list (all of them). The list so made is the list as written only when the
  parts are trimmed and in lower case already.
\<close>

theorem country_any_category_all:
  "(\<forall>c. q_country q = Some c \<and> c \<noteq> [] \<longrightarrow>
      (selects e q r \<longleftrightarrow>
         selects e (q\<lparr>q_country := None\<rparr>) r
         \<and> set (rec_country r)
             \<inter> set (map (\<lambda>v. toLowerCase (trim v)) (split CHR '','' c)) \<noteq> {}))
 \<and> (\<forall>c. q_category q = Some c \<and> c \<noteq> [] \<longrightarrow>
      (selects e q r \<longleftrightarrow>
         selects e (q\<lparr>q_category := None\<rparr>) r
         \<and> set (map (\<lambda>v. toLowerCase (trim v)) (split CHR '','' c))
             \<subseteq> set (rec_category r)))
 \<and> (\<forall>c. list_all (\<lambda>v. toLowerCase (trim v) = v) (split CHR '','' c) \<longrightarrow>
      map (\<lambda>v. toLowerCase (trim v)) (split CHR '','' c) = split CHR '','' c)"
proof -
  have "map (\<lambda>v. toLowerCase (trim v)) (split CHR '','' c) = split CHR '','' c"
    if "list_all (\<lambda>v. toLowerCase (trim v) = v) (split CHR '','' c)" for c
    using that by (simp add: list_all_iff map_idI)
  then show ?thesis
    using selects_country [of q _ e r] selects_category [of q _ e r]
    by (simp add: match_country_iff match_category_iff query_list_def)
qed

text \<open>
  The examples of the listing, and a parameter with blanks and capitals:
  \<open>country= US ,UK\<close> selects the document whose country is \<open>us\<close>.
\<close>

theorem country_any_category_all_witness:
  "selects sample_env (empty_query\<lparr>q_category := Some ''tech,ai''\<rparr>) stored_a1
 \<and> \<not> selects sample_env (empty_query\<lparr>q_category := Some ''tech,ai''\<rparr>) stored_a2
 \<and> selects sample_env (empty_query\<lparr>q_country := Some ''us,uk''\<rparr>) stored_a1
 \<and> \<not> selects sample_env (empty_query\<lparr>q_country := Some ''us,uk''\<rparr>) stored_a2
 \<and> selects sample_env (empty_query\<lparr>q_country := Some '' US ,UK''\<rparr>) stored_a1"
  using
    country_any_category_all
      [of "empty_query\<lparr>q_category := Some ''tech,ai''\<rparr>" sample_env stored_a1]
    country_any_category_all
      [of "empty_query\<lparr>q_category := Some ''tech,ai''\<rparr>" sample_env stored_a2]
    country_any_category_all
      [of "empty_query\<lparr>q_country := Some ''us,uk''\<rparr>" sample_env stored_a1]
    country_any_category_all
      [of "empty_query\<lparr>q_country := Some ''us,uk''\<rparr>" sample_env stored_a2]
    country_any_category_all
      [of "empty_query\<lparr>q_country := Some '' US ,UK''\<rparr>" sample_env stored_a1]
  by (simp add: query_list_def [symmetric] query_list_examples stored_fields selects_no_filter
      empty_query_def)

text \<open>
  \<open>country=US\<close>: the list as written is \<open>US\<close>. A document whose country is \<open>US\<close>
  shares an entry with it and is not selected; the document whose country is \<open>us\<close>
  shares none and is selected. \<open>category=Tech\<close>: a document whose category is
  \<open>Tech\<close> holds every entry of the list as written and is not selected.
\<close>

theorem parameter_as_written_counterexample:
  "set (rec_country (stored_a1\<lparr>rec_country := [''US'']\<rparr>)) \<inter> set (split CHR '','' ''US'') \<noteq> {}
 \<and> \<not> selects sample_env (empty_query\<lparr>q_country := Some ''US''\<rparr>)
       (stored_a1\<lparr>rec_country := [''US'']\<rparr>)
 \<and> set (rec_country stored_a1) \<inter> set (split CHR '','' ''US'') = {}
 \<and> selects sample_env (empty_query\<lparr>q_country := Some ''US''\<rparr>) stored_a1
 \<and> set (split CHR '','' ''Tech'') \<subseteq> set (rec_category (stored_a2\<lparr>rec_category := [''Tech'']\<rparr>))
 \<and> \<not> selects sample_env (empty_query\<lparr>q_category := Some ''Tech''\<rparr>)
       (stored_a2\<lparr>rec_category := [''Tech'']\<rparr>)"
  by (simp add: selects_country selects_category match_country_def match_category_def
      query_list_examples stored_fields selects_no_filter empty_query_def)

lemma toLowerCase_char_not_upper: "\<not> isUpper (toLowerCase_char c)"
  by (simp add: toLowerCase_char_def isUpper_def)

lemma query_list_no_upper:
  assumes "v \<in> set (query_list x)" "ch \<in> set v"
  shows "\<not> isUpper ch"
  using assms by (auto simp add: query_list_def toLowerCase_def toLowerCase_char_not_upper)

lemma split_not_Nil: "split d s \<noteq> []"
  by (induction s) (auto split: list.splits)

lemma query_list_not_Nil: "query_list x \<noteq> []"
  by (simp add: query_list_def split_not_Nil)

text \<open>
  C10. The values of a \<open>country\<close> or \<open>category\<close> parameter are trimmed and put in
  lower case, and the stored entries are compared as they are. So an entry with an
  upper-case letter (\<open>A\<close> to \<open>Z\<close>) is no value of any parameter, and a document whose
  \<open>country\<close> entries (whose \<open>category\<close> entries) all have one is selected by no
  request with a \<open>country\<close> (a \<open>category\<close>) parameter.
\<close>

theorem uppercase_entry_never_matched:
  "(list_ex isUpper entry \<longrightarrow> entry \<notin> set (query_list x))
 \<and> (list_all (list_ex isUpper) (rec_country r) \<and> q_country q = Some x \<and> x \<noteq> []
       \<longrightarrow> \<not> selects e q r)
 \<and> (list_all (list_ex isUpper) (rec_category r) \<and> q_category q = Some x \<and> x \<noteq> []
       \<longrightarrow> \<not> selects e q r)"
proof (intro conjI impI)
  assume "list_ex isUpper entry"
  then show "entry \<notin> set (query_list x)"
    using query_list_no_upper [of entry x] by (auto simp add: list_ex_iff)
next
  assume a: "list_all (list_ex isUpper) (rec_country r) \<and> q_country q = Some x \<and> x \<noteq> []"
  have "\<not> match_country (query_list x) r"
  proof
    assume "match_country (query_list x) r"
    then obtain v where v: "v \<in> set (query_list x)" "v \<in> set (rec_country r)"
      by (auto simp add: match_country_def list_ex_iff)
    with a have "list_ex isUpper v" by (simp add: list_all_iff)
    with v(1) show False using query_list_no_upper [of v x] by (auto simp add: list_ex_iff)
  qed
  with a show "\<not> selects e q r" using selects_country [of q x e r] by simp
next
  assume a: "list_all (list_ex isUpper) (rec_category r) \<and> q_category q = Some x \<and> x \<noteq> []"
  have "\<not> match_category (query_list x) r"
  proof
    assume m: "match_category (query_list x) r"
    obtain v vs where "query_list x = v # vs"
      using query_list_not_Nil [of x] by (cases "query_list x") auto
    then have v: "v \<in> set (query_list x)" by simp
    with m have "v \<in> set (rec_category r)" by (auto simp add: match_category_def list_all_iff)
    with a have "list_ex isUpper v" by (simp add: list_all_iff)
    with v show False using query_list_no_upper [of v x] by (auto simp add: list_ex_iff)
  qed
  with a show "\<not> selects e q r" using selects_category [of q x e r] by simp
qed

theorem uppercase_entry_never_matched_witness:
  "list_ex isUpper ''US''
 \<and> ''US'' \<notin> set (query_list ''US'')
 \<and> \<not> selects sample_env (empty_query\<lparr>q_country := Some ''US''\<rparr>)
       (stored_a1\<lparr>rec_country := [''US'']\<rparr>)
 \<and> \<not> selects sample_env (empty_query\<lparr>q_category := Some ''US''\<rparr>)
       (stored_a1\<lparr>rec_category := [''US'']\<rparr>)"
  using
    uppercase_entry_never_matched
      [of "''US''" "''US''" "stored_a1\<lparr>rec_country := [''US'']\<rparr>"
          "empty_query\<lparr>q_country := Some ''US''\<rparr>" sample_env]
    uppercase_entry_never_matched
      [of "''US''" "''US''" "stored_a1\<lparr>rec_category := [''US'']\<rparr>"
          "empty_query\<lparr>q_category := Some ''US''\<rparr>" sample_env]
  by (simp add: isUpper_def)

section \<open>Search\<close>

lemma parse_items_plain: "\<not> list_ex is_metachar p \<Longrightarrow> parse_items p = Some (map Lit p)"
  by (induction p) (auto simp add: is_metachar_def)

lemma match_here_lits:
  "match_here (map Lit p) s \<longleftrightarrow> prefix (toLowerCase p) (toLowerCase s)"
proof (induction p arbitrary: s)
  case Nil
  then show ?case by (simp add: toLowerCase_def)
next
  case (Cons c p)
  then show ?case by (cases s) (auto simp add: toLowerCase_def)
qed

lemma match_anywhere_lits:
  "match_anywhere (map Lit p) s \<longleftrightarrow> sublist (toLowerCase p) (toLowerCase s)"
proof (induction s)
  case Nil
  then show ?case by (cases p) (simp_all add: toLowerCase_def)
next
  case (Cons x xs)
  have "sublist (toLowerCase p) (toLowerCase (x # xs)) \<longleftrightarrow>
          prefix (toLowerCase p) (toLowerCase (x # xs)) \<or> sublist (toLowerCase p) (toLowerCase xs)"
    by (simp add: toLowerCase_def sublist_Cons_right)
  with Cons show ?case by (simp add: match_here_lits)
qed

lemma literal_dot_plain:
  "\<not> list_ex is_metachar p \<Longrightarrow> literal_dot_regex p = Some (ci_substring p)"
  by (auto simp add: literal_dot_regex_def parse_items_plain ci_substring_def match_anywhere_lits)

text \<open>
  C7 (as amended). In \<open>GET /api/news\<close> the \<open>search\<close> parameter is given to the store
  as a regular expression with option \<open>i\<close>: among the documents the other parameters
  select, it selects those in whose title or description the expression finds a
  match, and none when the store rejects the expression. For a parameter without
  metacharacters, where the expression means the text itself, these are the
  documents whose title or description holds the parameter as a substring, case
  ignored.
\<close>

theorem search_is_a_regular_expression:
  "(\<forall>s. q_search q = Some s \<and> s \<noteq> [] \<longrightarrow>
      (selects e q r \<longleftrightarrow>
         selects e (q\<lparr>q_search := None\<rparr>) r \<and>
         (\<exists>m. regex_compile e s = Some m \<and>
              (regex_field m (rec_title r) \<or> regex_field m (rec_description r)))))
 \<and> (\<forall>s. q_search q = Some s \<and> s \<noteq> [] \<and> \<not> list_ex is_metachar s
          \<and> regex_compile e s = literal_dot_regex s \<longrightarrow>
      (selects e q r \<longleftrightarrow>
         selects e (q\<lparr>q_search := None\<rparr>) r \<and>
         (regex_field (ci_substring s) (rec_title r)
          \<or> regex_field (ci_substring s) (rec_description r))))"
  using selects_search [of q _ e r]
  by (auto simp add: match_or_def literal_dot_plain)

theorem search_is_a_regular_expression_witness:
  "selects sample_env (empty_query\<lparr>q_search := Some ''election''\<rparr>) stored_a1
 \<and> selects sample_env (empty_query\<lparr>q_search := Some ''election''\<rparr>) stored_a2
 \<and> \<not> selects sample_env (empty_query\<lparr>q_search := Some ''election''\<rparr>) stored_a3"
proof -
  let ?q = "empty_query\<lparr>q_search := Some ''election''\<rparr>"
  have h: "q_search ?q = Some ''election'' \<and> ''election'' \<noteq> []
         \<and> \<not> list_ex is_metachar ''election''
         \<and> regex_compile sample_env ''election'' = literal_dot_regex ''election''"
    using election_plain by (simp add: sample_env_def)
  have rest: "selects sample_env (?q\<lparr>q_search := None\<rparr>) r" for r
    by (rule selects_no_filter) (simp_all add: empty_query_def)
  note T = search_is_a_regular_expression
    [of ?q sample_env, THEN conjunct2, rule_format, of "''election''", OF h]
  show ?thesis
    using T [of stored_a1] T [of stored_a2] T [of stored_a3] rest
    by (simp add: ci_examples stored_fields regex_field_def)
qed

text \<open>
  The parameter \<open>search=.\<close> selects the document with the title "Weather" and no
  description, and the text "." is in neither.
\<close>

theorem search_dot_counterexample:
  "selects sample_env (empty_query\<lparr>q_search := Some ''.''\<rparr>) stored_a3
 \<and> rec_title stored_a3 = Val ''Weather''
 \<and> rec_description stored_a3 = Null
 \<and> \<not> ci_substring ''.'' ''Weather''"
  by (simp add: selects_search selects_no_filter empty_query_def sample_env_def dot_pattern
      match_or_def regex_field_def stored_fields ci_examples)

section \<open>Pages\<close>

lemma pub_ge_total: "\<not> pub_ge a b \<Longrightarrow> pub_ge b a"
  by (cases a; cases b) auto

lemma pub_ge_trans: "pub_ge a b \<Longrightarrow> pub_ge b c \<Longrightarrow> pub_ge a c"
  by (cases a; cases b; cases c) auto

lemma mset_insert_desc: "mset (insert_desc x xs) = add_mset x (mset xs)"
  by (induction xs) auto

lemma mset_sort_desc: "mset (sort_desc xs) = mset xs"
  by (induction xs) (auto simp add: mset_insert_desc)

lemma set_insert_desc: "set (insert_desc x xs) = insert x (set xs)"
  by (induction xs) auto

lemma sorted_insert_desc:
  "sorted_wrt (\<lambda>a b. pub_ge (rec_pubDate a) (rec_pubDate b)) xs \<Longrightarrow>
   sorted_wrt (\<lambda>a b. pub_ge (rec_pubDate a) (rec_pubDate b)) (insert_desc x xs)"
proof (induction xs)
  case Nil
  then show ?case by simp
next
  case (Cons y ys)
  show ?case
  proof (cases "pub_ge (rec_pubDate x) (rec_pubDate y)")
    case True
    with Cons.prems show ?thesis by (auto intro: pub_ge_trans)
  next
    case False
    then have "pub_ge (rec_pubDate y) (rec_pubDate x)" by (rule pub_ge_total)
    with False Cons show ?thesis by (auto simp add: set_insert_desc)
  qed
qed

lemma sorted_sort_desc:
  "sorted_wrt (\<lambda>a b. pub_ge (rec_pubDate a) (rec_pubDate b)) (sort_desc xs)"
  by (induction xs) (auto simp add: sorted_insert_desc)

lemma ceil_div_Num:
  "l \<noteq> 0 \<Longrightarrow> ceil_div n (Num l) = Some \<lceil>real n / real_of_int l\<rceil>"
proof -
  assume "l \<noteq> 0"
  have "\<lceil>real n / real_of_int l\<rceil> = \<lceil>real_of_int (int n) / real_of_int l\<rceil>" by simp
  also have "\<dots> = - ((- int n) div l)" by (rule ceiling_divide_eq_div)
  finally show ?thesis using \<open>l \<noteq> 0\<close> by (simp add: ceil_div_def)
qed

text \<open>
  C6 (as amended). For a request to \<open>GET /api/news\<close> whose page reads as \<open>p \<ge> 1\<close> and
  whose limit reads as \<open>l \<ge> 1\<close>, on a store that answers and accepts the filter: the
  response is 200 with the number of matching documents as \<open>total\<close>, \<open>p\<close> as \<open>page\<close>,
  \<open>ceil(total / l)\<close> as \<open>totalPages\<close>, and as \<open>articles\<close> the matching documents in
  descending order of \<open>pubDate\<close> without the first \<open>(p - 1) * l\<close> and cut after \<open>l\<close>.
\<close>

theorem paginated_listing:
  assumes "fault d = None"
    and "compile_filter e (build_filter e q) = Inr P"
    and "page_number q = Num p" and "1 \<le> p"
    and "limit_number q = Num l" and "1 \<le> l"
  shows "api_news e d q =
           Responded 200
             (NewsBody (length (filter P (docs d))) (Some p)
                (Some \<lceil>real (length (filter P (docs d))) / real_of_int l\<rceil>)
                (take (nat l) (drop (nat ((p - 1) * l)) (sort_desc (filter P (docs d))))))
       \<and> sorted_wrt (\<lambda>a b. pub_ge (rec_pubDate a) (rec_pubDate b)) (sort_desc (filter P (docs d)))
       \<and> mset (sort_desc (filter P (docs d))) = mset (filter P (docs d))"
proof -
  have "0 \<le> (p - 1) * l" using assms(4,6) by simp
  then have skip: "\<not> (p - 1) * l < 0" by simp
  have l0: "l \<noteq> 0" using assms(6) by simp
  from compile_filter_casts [OF assms(2)]
  obtain b where cast: "cast_range (f_pubDate (build_filter e q)) = Inr b" by blast
  have "api_news e d q =
           Responded 200
             (NewsBody (length (filter P (docs d))) (Some p)
                (Some \<lceil>real (length (filter P (docs d))) / real_of_int l\<rceil>)
                (take (nat l) (drop (nat ((p - 1) * l)) (sort_desc (filter P (docs d))))))"
    using assms(1,2,3,5) skip l0 assms(6) cast
    by (simp add: api_news_def Let_def Article_find_def Article_countDocuments_def
        store_number_def apply_limit_def ceil_div_Num)
  then show ?thesis by (simp add: sorted_sort_desc mset_sort_desc)
qed

text \<open>
  \<open>page=2&limit=1\<close> on the store of two documents: the second newest document and
  two pages.
\<close>

theorem paginated_listing_witness:
  "api_news sample_env db_two (empty_query\<lparr>q_page := Some ''2'', q_limit := Some ''1''\<rparr>)
     = Responded 200 (NewsBody 2 (Some 2) (Some 2) [stored_a1])
 \<and> sort_desc (docs db_two) = [stored_a2, stored_a1]"
proof -
  let ?q = "empty_query\<lparr>q_page := Some ''2'', q_limit := Some ''1''\<rparr>"
  have 1: "fault db_two = None" by (simp add: db_two_eq)
  have 2: "compile_filter sample_env (build_filter sample_env ?q) = Inr (\<lambda>r. True)"
    by (rule compile_no_filter) (simp_all add: empty_query_def)
  have 3: "page_number ?q = Num 2"
    by (simp add: page_number_def parseInt_examples)
  have 4: "limit_number ?q = Num 1"
    by (simp add: limit_number_def parseInt_examples)
  show ?thesis
    using paginated_listing [OF 1 2 3 _ 4]
    by (simp add: db_two_eq stored_fields)
qed

text \<open>
  \<open>page=1&limit=0\<close> on the store of two documents: both documents are returned, and
  \<open>totalPages\<close> is \<open>null\<close>.
\<close>

theorem limit_zero_counterexample:
  "api_news sample_env db_two (empty_query\<lparr>q_page := Some ''1'', q_limit := Some ''0''\<rparr>)
     = Responded 200 (NewsBody 2 (Some 1) None [stored_a2, stored_a1])"
proof -
  let ?q = "empty_query\<lparr>q_page := Some ''1'', q_limit := Some ''0''\<rparr>"
  have 2: "compile_filter sample_env (build_filter sample_env ?q) = Inr (\<lambda>r. True)"
    by (rule compile_no_filter) (simp_all add: empty_query_def)
  have 3: "page_number ?q = Num 1"
    by (simp add: page_number_def parseInt_examples)
  have 4: "limit_number ?q = Num 0"
    by (simp add: limit_number_def parseInt_examples)
  have 5: "cast_range (f_pubDate (build_filter sample_env ?q)) = Inr None"
    by (rule cast_no_range) (simp_all add: empty_query_def)
  show ?thesis
    by (simp add: api_news_def Let_def Article_find_def Article_countDocuments_def 2 3 4 5
        store_number_def db_two_eq apply_limit_def ceil_div_def stored_fields)
qed









section \<open>Failures of the store\<close>

text \<open>
  C9. When the store cannot be reached, \<open>GET /api/news\<close> and \<open>GET /api/filters\<close>
  answer with status 500 and an error body, and \<open>GET /api/status\<close> does not: the
  rejection leaves the handler and no response is sent by it.
\<close>

theorem status_failure_escapes:
  "fault d = Some msg \<Longrightarrow>
     api_status d = Rejected (StoreUnreachable msg)
   \<and> api_filters d = Responded 500 (ErrorBody (StoreUnreachable msg))
   \<and> (\<exists>err. api_news e d q = Responded 500 (ErrorBody err))"
  by (auto simp add: api_status_def api_filters_def api_news_def Let_def Article_count_all_def
      Article_distinct_def Article_find_def split: sum.splits)

theorem status_failure_escapes_witness:
  "fault (empty_db\<lparr>fault := Some ''unreachable''\<rparr>) = Some ''unreachable''
 \<and> api_status (empty_db\<lparr>fault := Some ''unreachable''\<rparr>)
     = Rejected (StoreUnreachable ''unreachable'')
 \<and> api_filters (empty_db\<lparr>fault := Some ''unreachable''\<rparr>)
     = Responded 500 (ErrorBody (StoreUnreachable ''unreachable''))"
  using status_failure_escapes [of "empty_db\<lparr>fault := Some ''unreachable''\<rparr>" "''unreachable''"]
  by simp

section \<open>The normalized record\<close>

text \<open>
  C8 (as amended). In the record \<open>fetchAndStoreNews\<close> builds for an article,
  \<open>keywords\<close>, \<open>creator\<close>, \<open>country\<close> and \<open>category\<close> are the empty list when the
  payload's field is missing or \<open>null\<close>, and \<open>datatype\<close> is \<open>"news"\<close> then; \<open>pubDate\<close>
  is \<open>null\<close> when the payload's value is missing, \<open>null\<close> or the empty string, the
  parsed time when the value parses, and an invalid date, not \<open>null\<close>, when it does
  not parse.
\<close>

theorem normalized_record_defaults:
  "(art_keywords art = Undefined \<or> art_keywords art = Null \<longrightarrow> doc_keywords (build_doc e art) = [])
 \<and> (art_creator art = Undefined \<or> art_creator art = Null \<longrightarrow> doc_creator (build_doc e art) = [])
 \<and> (art_country art = Undefined \<or> art_country art = Null \<longrightarrow> doc_country (build_doc e art) = [])
 \<and> (art_category art = Undefined \<or> art_category art = Null \<longrightarrow> doc_category (build_doc e art) = [])
 \<and> (art_datatype art = Undefined \<or> art_datatype art = Null
       \<longrightarrow> doc_datatype (build_doc e art) = ''news'')
 \<and> (art_pubDate art = Undefined \<or> art_pubDate art = Null \<or> art_pubDate art = Val []
       \<longrightarrow> doc_pubDate (build_doc e art) = None)
 \<and> (\<forall>s t. art_pubDate art = Val s \<and> s \<noteq> [] \<and> Date_parse e s = Some t
        \<longrightarrow> doc_pubDate (build_doc e art) = Some (Date t))
 \<and> (\<forall>s. art_pubDate art = Val s \<and> s \<noteq> [] \<and> Date_parse e s = None
        \<longrightarrow> doc_pubDate (build_doc e art) = Some InvalidDate)"
  by (auto simp add: build_doc_def or_empty_def or_news_def pubDate_of_def new_Date_def)

theorem normalized_record_defaults_witness:
  "doc_keywords (build_doc sample_env (bare_article ''a1'')) = []
 \<and> doc_creator (build_doc sample_env (bare_article ''a1'')) = []
 \<and> doc_country (build_doc sample_env (bare_article ''a1'')) = []
 \<and> doc_category (build_doc sample_env (bare_article ''a1'')) = []
 \<and> doc_datatype (build_doc sample_env (bare_article ''a1'')) = ''news''
 \<and> doc_pubDate (build_doc sample_env (bare_article ''a1'')) = None
 \<and> doc_pubDate (build_doc sample_env
       ((bare_article ''a1'')\<lparr>art_pubDate := Val ''2024-01-15T10:00:00Z''\<rparr>))
     = Some (Date 1705312800000)"
  using normalized_record_defaults [of "bare_article ''a1''" sample_env]
    normalized_record_defaults
      [of "(bare_article ''a1'')\<lparr>art_pubDate := Val ''2024-01-15T10:00:00Z''\<rparr>" sample_env]
  by (simp add: bare_article_def sample_env_def)

text \<open>
  A payload whose \<open>pubDate\<close> is the text "not a date", which \<open>Date.parse\<close> does not
  read: the record's \<open>pubDate\<close> is an invalid date, not \<open>null\<close>.
\<close>

theorem unparseable_pubDate_counterexample:
  "doc_pubDate (build_doc sample_env ((bare_article ''a1'')\<lparr>art_pubDate := Val ''not a date''\<rparr>))
     = Some InvalidDate
 \<and> Date_parse sample_env ''not a date'' = None"
  by (simp add: build_doc_def bare_article_def pubDate_of_def new_Date_def sample_env_def)

section \<open>Upserts\<close>

lemma update_first_None: "update_first k f rs = None \<longleftrightarrow> k \<notin> rec_article_id ` set rs"
  by (induction rs) (auto split: option.splits)

lemma update_first_ids:
  assumes "update_first k f rs = Some (rs', m)" and "\<And>r. rec_article_id (f r) = k"
  shows "map rec_article_id rs' = map rec_article_id rs"
  using assms by (induction rs arbitrary: rs') (auto split: if_splits option.splits)

lemma update_first_find:
  assumes "find (\<lambda>r. rec_article_id r = k) rs = Some r" and "\<And>r. rec_article_id (f r) = k"
  shows "\<exists>rs' m. update_first k f rs = Some (rs', m) \<and> find (\<lambda>r. rec_article_id r = k) rs' = Some (f r)"
  using assms by (induction rs) (auto split: if_splits)

lemma update_first_modified:
  assumes "update_first k f rs = Some (rs', m)"
    and "\<forall>r\<in>set rs. rec_article_id r = k \<longrightarrow> f r \<noteq> r"
  shows "m = 1"
  using assms by (induction rs arbitrary: rs') (auto split: if_splits option.splits)

lemma update_first_other:
  assumes "update_first k f rs = Some (rs', m)" and "\<And>r. rec_article_id (f r) = k"
    and "r' \<in> set rs'" and "rec_article_id r' \<noteq> k"
  shows "r' \<in> set rs"
  using assms by (induction rs arbitrary: rs') (auto split: if_splits option.splits)

lemma update_first_same:
  assumes "update_first k f rs = Some (rs', m)" and "distinct (map rec_article_id rs)"
    and "r' \<in> set rs'" and "rec_article_id r' = k"
  shows "\<exists>r. r' = f r"
  using assms
proof (induction rs arbitrary: rs')
  case Nil
  then show ?case by simp
next
  case (Cons a rs)
  show ?case
  proof (cases "rec_article_id a = k")
    case True
    with Cons.prems show ?thesis by (auto simp add: image_iff)
  next
    case False
    with Cons.prems obtain rs0 where u: "update_first k f rs = Some (rs0, m)" and r: "rs' = a # rs0"
      by (auto split: option.splits)
    with Cons.prems False have "r' \<in> set rs0" by auto
    with Cons.IH [OF u] Cons.prems(2) Cons.prems(4) show ?thesis by simp
  qed
qed

lemma apply_set_changes: "rec_updatedAt r \<noteq> now \<Longrightarrow> apply_set dc pd now r \<noteq> r"
proof
  assume a: "rec_updatedAt r \<noteq> now" and "apply_set dc pd now r = r"
  then have "rec_updatedAt (apply_set dc pd now r) = rec_updatedAt r" by simp
  with a show False by (simp add: apply_set_def)
qed

lemma rec_updatedAt_apply_set: "rec_updatedAt (apply_set dc pd now r) = now"
  by (simp add: apply_set_def)

lemma rec_updatedAt_insert_doc: "rec_updatedAt (insert_doc dc pd now) = now"
  by (simp add: insert_doc_def)

subsection \<open>One upsert\<close>

lemma updateOne_Inr:
  assumes "Article_updateOne d now dc = Inr (d', res)"
  shows "fault d = None" and "\<exists>pd. cast_date (doc_pubDate dc) = Inr pd"
    and "fault d' = None"
  using assms
  by (auto simp add: Article_updateOne_def split: sum.splits option.splits)

lemma updateOne_present:
  assumes "Article_updateOne d now dc = Inr (d', res)"
    and "doc_article_id dc \<in> rec_article_id ` set (docs d)"
  shows "map rec_article_id (docs d') = map rec_article_id (docs d)"
    and "upsertedCount res = 0"
    and "(\<forall>r\<in>set (docs d). rec_article_id r = doc_article_id dc \<longrightarrow> rec_updatedAt r \<noteq> now)
          \<longrightarrow> modifiedCount res = 1"
proof -
  from assms(1) obtain pd where pd: "cast_date (doc_pubDate dc) = Inr pd"
    and nf: "fault d = None"
    by (auto simp add: Article_updateOne_def split: sum.splits option.splits)
  from assms(2) obtain rs m where
    u: "update_first (doc_article_id dc) (apply_set dc pd now) (docs d) = Some (rs, m)"
    using update_first_None [of "doc_article_id dc" "apply_set dc pd now" "docs d"] by fastforce
  from assms(1) pd nf u have d': "docs d' = rs" and res: "upsertedCount res = 0" "modifiedCount res = m"
    by (auto simp add: Article_updateOne_def)
  show "map rec_article_id (docs d') = map rec_article_id (docs d)"
    unfolding d' using u by (rule update_first_ids) (simp add: rec_article_id_apply_set)
  show "upsertedCount res = 0" by (rule res)
  show "(\<forall>r\<in>set (docs d). rec_article_id r = doc_article_id dc \<longrightarrow> rec_updatedAt r \<noteq> now)
          \<longrightarrow> modifiedCount res = 1"
    using update_first_modified [OF u] by (auto simp add: res apply_set_changes)
qed

lemma updateOne_absent:
  assumes "Article_updateOne d now dc = Inr (d', res)"
    and "doc_article_id dc \<notin> rec_article_id ` set (docs d)"
  shows "map rec_article_id (docs d') = map rec_article_id (docs d) @ [doc_article_id dc]"
    and "upsertedCount res = 1"
proof -
  from assms(1) obtain pd where pd: "cast_date (doc_pubDate dc) = Inr pd"
    and nf: "fault d = None"
    by (auto simp add: Article_updateOne_def split: sum.splits option.splits)
  from assms(2) have
    u: "update_first (doc_article_id dc) (apply_set dc pd now) (docs d) = None"
    by (simp add: update_first_None)
  from assms(1) pd nf u
  show "map rec_article_id (docs d') = map rec_article_id (docs d) @ [doc_article_id dc]"
    and "upsertedCount res = 1"
    by (auto simp add: Article_updateOne_def rec_article_id_insert_doc)
qed

lemma updateOne_records:
  assumes "Article_updateOne d now dc = Inr (d', res)"
    and "distinct (map rec_article_id (docs d))"
    and "r' \<in> set (docs d')"
  shows "rec_article_id r' \<noteq> doc_article_id dc \<longrightarrow> r' \<in> set (docs d)"
    and "rec_article_id r' = doc_article_id dc \<longrightarrow> rec_updatedAt r' = now"
proof -
  from assms(1) obtain pd where pd: "cast_date (doc_pubDate dc) = Inr pd"
    and nf: "fault d = None"
    by (auto simp add: Article_updateOne_def split: sum.splits option.splits)
  show "rec_article_id r' \<noteq> doc_article_id dc \<longrightarrow> r' \<in> set (docs d)"
  proof (cases "update_first (doc_article_id dc) (apply_set dc pd now) (docs d)")
    case None
    with assms(1,3) pd nf show ?thesis
      by (auto simp add: Article_updateOne_def rec_article_id_insert_doc)
  next
    case (Some p)
    then obtain rs m where u: "update_first (doc_article_id dc) (apply_set dc pd now) (docs d) = Some (rs, m)"
      by (cases p) auto
    with assms(1) pd nf have "docs d' = rs" by (auto simp add: Article_updateOne_def)
    with assms(3) update_first_other [OF u] show ?thesis
      by (auto simp add: rec_article_id_apply_set)
  qed
  show "rec_article_id r' = doc_article_id dc \<longrightarrow> rec_updatedAt r' = now"
  proof (cases "update_first (doc_article_id dc) (apply_set dc pd now) (docs d)")
    case None
    then have notin: "doc_article_id dc \<notin> rec_article_id ` set (docs d)"
      by (simp add: update_first_None)
    from None assms(1) pd nf have "docs d' = docs d @ [insert_doc dc pd now]"
      by (auto simp add: Article_updateOne_def)
    with assms(3) have "r' \<in> set (docs d) \<or> r' = insert_doc dc pd now" by auto
    then show ?thesis
    proof
      assume "r' \<in> set (docs d)"
      then have "rec_article_id r' \<in> rec_article_id ` set (docs d)" by (rule imageI)
      with notin show ?thesis by auto
    next
      assume "r' = insert_doc dc pd now"
      then show ?thesis by (simp add: rec_updatedAt_insert_doc)
    qed
  next
    case (Some p)
    then obtain rs m where u: "update_first (doc_article_id dc) (apply_set dc pd now) (docs d) = Some (rs, m)"
      by (cases p) auto
    with assms(1) pd nf have "docs d' = rs" by (auto simp add: Article_updateOne_def)
    show ?thesis
    proof
      assume "rec_article_id r' = doc_article_id dc"
      with update_first_same [OF u assms(2), of r'] assms(3) \<open>docs d' = rs\<close>
      obtain r where "r' = apply_set dc pd now r" by auto
      then show "rec_updatedAt r' = now" by (simp add: rec_updatedAt_apply_set)
    qed
  qed
qed

lemma updateOne_ids_set:
  assumes "Article_updateOne d now dc = Inr (d', res)"
  shows "set (map rec_article_id (docs d')) = insert (doc_article_id dc) (set (map rec_article_id (docs d)))"
    and "distinct (map rec_article_id (docs d)) \<longrightarrow> distinct (map rec_article_id (docs d'))"
proof -
  show "set (map rec_article_id (docs d')) = insert (doc_article_id dc) (set (map rec_article_id (docs d)))"
  proof (cases "doc_article_id dc \<in> rec_article_id ` set (docs d)")
    case True
    from updateOne_present(1) [OF assms True] True show ?thesis by auto
  next
    case False
    from updateOne_absent(1) [OF assms False] show ?thesis by auto
  qed
  show "distinct (map rec_article_id (docs d)) \<longrightarrow> distinct (map rec_article_id (docs d'))"
  proof (cases "doc_article_id dc \<in> rec_article_id ` set (docs d)")
    case True
    from updateOne_present(1) [OF assms True] show ?thesis by simp
  next
    case False
    from updateOne_absent(1) [OF assms False] False show ?thesis by simp
  qed
qed

lemma updateOne_prefix:
  assumes "Article_updateOne d now dc = Inr (d', res)"
  shows "prefix (map rec_article_id (docs d)) (map rec_article_id (docs d'))"
proof (cases "doc_article_id dc \<in> rec_article_id ` set (docs d)")
  case True
  from updateOne_present(1) [OF assms True] show ?thesis by simp
next
  case False
  from updateOne_absent(1) [OF assms False] show ?thesis by simp
qed

lemma updateOne_succeeds:
  assumes "fault d = None" and "cast_date (doc_pubDate dc) = Inr pd"
  shows "\<exists>d' res. Article_updateOne d now dc = Inr (d', res)"
proof (cases "update_first (doc_article_id dc) (apply_set dc pd now) (docs d)")
  case None
  with assms show ?thesis by (simp add: Article_updateOne_def)
next
  case (Some p)
  with assms show ?thesis by (cases p) (simp add: Article_updateOne_def)
qed

subsection \<open>The loop\<close>

lemma upsert_loop_first_run:
  assumes "upsert_loop e ck i arts d ins upd = Inr (d', ins', upd')"
    and "distinct (map rec_article_id (docs d))"
  shows "distinct (map rec_article_id (docs d'))
       \<and> set (map rec_article_id (docs d')) = set (map rec_article_id (docs d)) \<union> art_article_id ` set arts
       \<and> (arts \<noteq> [] \<longrightarrow> fault d' = None)
       \<and> (\<forall>a\<in>set arts. \<exists>pd. cast_date (doc_pubDate (build_doc e a)) = Inr pd)
       \<and> (\<forall>r'\<in>set (docs d'). rec_article_id r' \<notin> art_article_id ` set arts \<longrightarrow> r' \<in> set (docs d))
       \<and> (\<forall>r'\<in>set (docs d'). rec_article_id r' \<in> art_article_id ` set arts \<longrightarrow>
             (\<exists>j. i \<le> j \<and> j < i + length arts \<and> rec_updatedAt r' = ck j))"
  using assms
proof (induction arts arbitrary: i d ins upd)
  case Nil
  then show ?case by simp
next
  case (Cons a arts)
  let ?dc = "build_doc e a"
  have k: "doc_article_id ?dc = art_article_id a" by (simp add: build_doc_def)
  from Cons.prems(1) obtain d1 res where
    u: "Article_updateOne d (ck i) ?dc = Inr (d1, res)"
    by (auto split: sum.splits)
  with Cons.prems(1) obtain ins1 upd1 where
    rest: "upsert_loop e ck (Suc i) arts d1 ins1 upd1 = Inr (d', ins', upd')"
    by (auto split: if_splits)
  have dist1: "distinct (map rec_article_id (docs d1))"
    using updateOne_ids_set(2) [OF u] Cons.prems(2) by simp
  have ids1: "set (map rec_article_id (docs d1)) = insert (art_article_id a) (set (map rec_article_id (docs d)))"
    using updateOne_ids_set(1) [OF u] by (simp add: k)
  note IH = Cons.IH [OF rest dist1]
  have f1: "fault d1 = None" using updateOne_Inr(3) [OF u] .
  have fd': "fault d' = None"
  proof (cases "arts = []")
    case True
    with rest f1 show ?thesis by simp
  next
    case False
    with IH show ?thesis by simp
  qed
  have cast: "\<exists>pd. cast_date (doc_pubDate ?dc) = Inr pd" using updateOne_Inr(2) [OF u] .
  have other: "r' \<in> set (docs d)"
    if "r' \<in> set (docs d')" "rec_article_id r' \<notin> art_article_id ` set (a # arts)" for r'
  proof -
    from that IH have "r' \<in> set (docs d1)" by auto
    moreover from that have "rec_article_id r' \<noteq> doc_article_id ?dc" by (simp add: k)
    ultimately show ?thesis using updateOne_records(1) [OF u Cons.prems(2)] by blast
  qed
  have stamped: "\<exists>j. i \<le> j \<and> j < i + length (a # arts) \<and> rec_updatedAt r' = ck j"
    if "r' \<in> set (docs d')" "rec_article_id r' \<in> art_article_id ` set (a # arts)" for r'
  proof (cases "rec_article_id r' \<in> art_article_id ` set arts")
    case True
    with that(1) IH obtain j where "Suc i \<le> j" "j < Suc i + length arts" "rec_updatedAt r' = ck j"
      by blast
    then show ?thesis by (intro exI [of _ j]) simp
  next
    case False
    with that(2) have id: "rec_article_id r' = doc_article_id ?dc" by (auto simp add: k)
    from False that(1) IH have "r' \<in> set (docs d1)" by auto
    with updateOne_records(2) [OF u Cons.prems(2)] id have "rec_updatedAt r' = ck i" by blast
    then show ?thesis by (intro exI [of _ i]) simp
  qed
  from IH ids1 fd' cast other stamped show ?case
    by (auto simp del: set_map)
qed

lemma upsert_loop_second_run:
  assumes "distinct (map rec_article_id (docs d))"
    and "fault d = None"
    and "\<forall>a\<in>set arts. \<exists>pd. cast_date (doc_pubDate (build_doc e a)) = Inr pd"
    and "art_article_id ` set arts \<subseteq> set (map rec_article_id (docs d))"
    and "\<forall>r\<in>set (docs d). rec_article_id r \<in> art_article_id ` set arts \<longrightarrow>
           (\<forall>j. i \<le> j \<and> j < i + length arts \<longrightarrow> rec_updatedAt r \<noteq> ck j)"
    and "\<forall>j j'. i \<le> j \<and> j < j' \<and> j' < i + length arts \<longrightarrow> ck j \<noteq> ck j'"
  shows "\<exists>d'. upsert_loop e ck i arts d ins upd = Inr (d', ins, upd + length arts)
            \<and> map rec_article_id (docs d') = map rec_article_id (docs d)"
  using assms
proof (induction arts arbitrary: i d upd)
  case Nil
  then show ?case by simp
next
  case (Cons a arts)
  let ?dc = "build_doc e a"
  have k: "doc_article_id ?dc = art_article_id a" by (simp add: build_doc_def)
  from Cons.prems(3) obtain pd where pd: "cast_date (doc_pubDate ?dc) = Inr pd" by auto
  have present: "doc_article_id ?dc \<in> rec_article_id ` set (docs d)"
    using Cons.prems(4) by (auto simp add: k)
  from updateOne_succeeds [OF Cons.prems(2) pd] obtain d1 res where
    u: "Article_updateOne d (ck i) ?dc = Inr (d1, res)"
    by blast
  have ids1: "map rec_article_id (docs d1) = map rec_article_id (docs d)"
    using updateOne_present(1) [OF u present] .
  have up0: "upsertedCount res = 0" using updateOne_present(2) [OF u present] .
  have "\<forall>r\<in>set (docs d). rec_article_id r = doc_article_id ?dc \<longrightarrow> rec_updatedAt r \<noteq> ck i"
    using Cons.prems(5) by (auto simp add: k)
  with updateOne_present(3) [OF u present] have mod1: "modifiedCount res = 1" by blast
  have step: "upsert_loop e ck i (a # arts) d ins upd = upsert_loop e ck (Suc i) arts d1 ins (upd + 1)"
    using u up0 mod1 by simp
  have dist1: "distinct (map rec_article_id (docs d1))" using ids1 Cons.prems(1) by simp
  have f1: "fault d1 = None" using updateOne_Inr(3) [OF u] .
  have cast1: "\<forall>a\<in>set arts. \<exists>pd. cast_date (doc_pubDate (build_doc e a)) = Inr pd"
    using Cons.prems(3) by simp
  have sub1: "art_article_id ` set arts \<subseteq> set (map rec_article_id (docs d1))"
    using Cons.prems(4) ids1 by auto
  have fresh1: "\<forall>r\<in>set (docs d1). rec_article_id r \<in> art_article_id ` set arts \<longrightarrow>
           (\<forall>j. Suc i \<le> j \<and> j < Suc i + length arts \<longrightarrow> rec_updatedAt r \<noteq> ck j)"
  proof (intro ballI impI allI)
    fix r j
    assume r: "r \<in> set (docs d1)" and rin: "rec_article_id r \<in> art_article_id ` set arts"
      and j: "Suc i \<le> j \<and> j < Suc i + length arts"
    show "rec_updatedAt r \<noteq> ck j"
    proof (cases "rec_article_id r = doc_article_id ?dc")
      case True
      with updateOne_records(2) [OF u Cons.prems(1) r] have "rec_updatedAt r = ck i" by blast
      moreover from Cons.prems(6) j have "ck i \<noteq> ck j" by simp
      ultimately show ?thesis by simp
    next
      case False
      with updateOne_records(1) [OF u Cons.prems(1) r] have "r \<in> set (docs d)" by blast
      with Cons.prems(5) rin j show ?thesis by simp
    qed
  qed
  have inj1: "\<forall>j j'. Suc i \<le> j \<and> j < j' \<and> j' < Suc i + length arts \<longrightarrow> ck j \<noteq> ck j'"
    using Cons.prems(6) by simp
  from Cons.IH [OF dist1 f1 cast1 sub1 fresh1 inj1, of "upd + 1"]
  show ?case unfolding step using ids1 by simp
qed

lemma upsert_loop_keeps:
  "(case upsert_loop e ck i arts d ins upd of
      Inl (err, d') \<Rightarrow> prefix (map rec_article_id (docs d)) (map rec_article_id (docs d'))
    | Inr (d', x) \<Rightarrow> prefix (map rec_article_id (docs d)) (map rec_article_id (docs d')))"
proof (induction arts arbitrary: i d ins upd)
  case Nil
  then show ?case by simp
next
  case (Cons a arts)
  show ?case
  proof (cases "Article_updateOne d (ck i) (build_doc e a)")
    case (Inl err)
    then show ?thesis by simp
  next
    case (Inr p)
    then obtain d1 res where u: "Article_updateOne d (ck i) (build_doc e a) = Inr (d1, res)"
      by (cases p) auto
    note p1 = updateOne_prefix [OF u]
    have "(case upsert_loop e ck (Suc i) arts d1 ins' upd' of
             Inl (err, d') \<Rightarrow> prefix (map rec_article_id (docs d)) (map rec_article_id (docs d'))
           | Inr (d', x) \<Rightarrow> prefix (map rec_article_id (docs d)) (map rec_article_id (docs d')))"
      for ins' upd'
      using Cons.IH [where i = "Suc i" and d = d1 and ins = ins' and upd = upd'] p1
      by (auto split: sum.splits)
    with u show ?thesis by simp
  qed
qed

lemma job_keeps:
  "prefix (map rec_article_id (docs d))
     (map rec_article_id (docs (rr_db (fetchAndStoreNews e ck response d))))"
proof (cases response)
  case (FetchRejected msg)
  then show ?thesis by (simp add: fetchAndStoreNews_def)
next
  case (FetchResolved results)
  show ?thesis
    using upsert_loop_keeps
      [where e = e and ck = ck and i = 0 and d = d and ins = 0 and upd = 0
         and arts = "case results of None \<Rightarrow> [] | Some xs \<Rightarrow> xs"]
    by (auto simp add: fetchAndStoreNews_def FetchResolved Let_def split: sum.splits)
qed

lemma set_field_if: "set_field new old = (if new = Undefined then old else new)"
  by (cases new) (simp_all add: set_field_def)

text \<open>
  C2 (as amended). An upsert for an \<open>article_id\<close> that is in the store writes into
  the stored document every field for which the record built from the payload has a
  value: \<open>keywords\<close>, \<open>creator\<close>, \<open>country\<close>, \<open>category\<close>, \<open>datatype\<close> and \<open>pubDate\<close>
  always, with their defaults for an omitted field, and each other field when the
  payload has it, \<open>null\<close> included. A field of these that the payload omits keeps its
  stored value, \<open>createdAt\<close> is kept, and \<open>updatedAt\<close> becomes the time of the upsert.
  No document is deleted: after a run of the job the store holds the identifiers it
  held, in their places, and those the run added after them.
\<close>

theorem upsert_sets_supplied_fields:
  assumes "Article_updateOne d now (build_doc e art) = Inr (d', res)"
    and "find (\<lambda>r. rec_article_id r = art_article_id art) (docs d) = Some r"
  shows "(\<exists>r'. find (\<lambda>r. rec_article_id r = art_article_id art) (docs d') = Some r'
        \<and> map rec_article_id (docs d') = map rec_article_id (docs d)
        \<and> rec_keywords r' = or_empty (art_keywords art)
        \<and> rec_creator r' = or_empty (art_creator art)
        \<and> rec_country r' = or_empty (art_country art)
        \<and> rec_category r' = or_empty (art_category art)
        \<and> rec_datatype r' = or_news (art_datatype art)
        \<and> cast_date (pubDate_of e (art_pubDate art)) = Inr (rec_pubDate r')
        \<and> rec_title r' = (if art_title art = Undefined then rec_title r else art_title art)
        \<and> rec_link r' = (if art_link art = Undefined then rec_link r else art_link art)
        \<and> rec_video_url r' = (if art_video_url art = Undefined then rec_video_url r else art_video_url art)
        \<and> rec_description r' = (if art_description art = Undefined then rec_description r else art_description art)
        \<and> rec_content r' = (if art_content art = Undefined then rec_content r else art_content art)
        \<and> rec_image_url r' = (if art_image_url art = Undefined then rec_image_url r else art_image_url art)
        \<and> rec_source_id r' = (if art_source_id art = Undefined then rec_source_id r else art_source_id art)
        \<and> rec_source_priority r' = (if art_source_priority art = Undefined then rec_source_priority r else art_source_priority art)
        \<and> rec_source_url r' = (if art_source_url art = Undefined then rec_source_url r else art_source_url art)
        \<and> rec_source_icon r' = (if art_source_icon art = Undefined then rec_source_icon r else art_source_icon art)
        \<and> rec_language r' = (if art_language art = Undefined then rec_language r else art_language art)
        \<and> rec_ai_tag r' = (if art_ai_tag art = Undefined then rec_ai_tag r else art_ai_tag art)
        \<and> rec_sentiment r' = (if art_sentiment art = Undefined then rec_sentiment r else art_sentiment art)
        \<and> rec_sentiment_stats r' = (if art_sentiment_stats art = Undefined then rec_sentiment_stats r else art_sentiment_stats art)
        \<and> rec_ai_region r' = (if art_ai_region art = Undefined then rec_ai_region r else art_ai_region art)
        \<and> rec_ai_org r' = (if art_ai_org art = Undefined then rec_ai_org r else art_ai_org art)
        \<and> rec_duplicate r' = (if art_duplicate art = Undefined then rec_duplicate r else art_duplicate art)
        \<and> rec_createdAt r' = rec_createdAt r
        \<and> rec_updatedAt r' = now)
      \<and> prefix (map rec_article_id (docs d0))
           (map rec_article_id (docs (rr_db (fetchAndStoreNews e0 clock response d0))))"
proof -
  let ?dc = "build_doc e art"
  have k: "doc_article_id ?dc = art_article_id art" by (simp add: build_doc_def)
  from assms(1) obtain pd where pd: "cast_date (doc_pubDate ?dc) = Inr pd"
    by (auto simp add: Article_updateOne_def split: sum.splits)
  from assms(1) have nf: "fault d = None"
    by (auto simp add: Article_updateOne_def split: sum.splits option.splits)
  from update_first_find [OF assms(2), of "apply_set ?dc pd now"]
  obtain rs' m where u: "update_first (art_article_id art) (apply_set ?dc pd now) (docs d) = Some (rs', m)"
    and f: "find (\<lambda>r. rec_article_id r = art_article_id art) rs' = Some (apply_set ?dc pd now r)"
    by (auto simp add: rec_article_id_apply_set k)
  from u have ids: "map rec_article_id rs' = map rec_article_id (docs d)"
    by (rule update_first_ids) (simp add: rec_article_id_apply_set k)
  from assms(1) pd nf u have d': "docs d' = rs'"
    by (auto simp add: Article_updateOne_def k)
  have pd': "cast_date (pubDate_of e (art_pubDate art)) = Inr pd"
    using pd by (simp add: build_doc_def)
  have "\<exists>r'. find (\<lambda>r. rec_article_id r = art_article_id art) (docs d') = Some r'
        \<and> map rec_article_id (docs d') = map rec_article_id (docs d)
        \<and> rec_keywords r' = or_empty (art_keywords art)
        \<and> rec_creator r' = or_empty (art_creator art)
        \<and> rec_country r' = or_empty (art_country art)
        \<and> rec_category r' = or_empty (art_category art)
        \<and> rec_datatype r' = or_news (art_datatype art)
        \<and> cast_date (pubDate_of e (art_pubDate art)) = Inr (rec_pubDate r')
        \<and> rec_title r' = (if art_title art = Undefined then rec_title r else art_title art)
        \<and> rec_link r' = (if art_link art = Undefined then rec_link r else art_link art)
        \<and> rec_video_url r' = (if art_video_url art = Undefined then rec_video_url r else art_video_url art)
        \<and> rec_description r' = (if art_description art = Undefined then rec_description r else art_description art)
        \<and> rec_content r' = (if art_content art = Undefined then rec_content r else art_content art)
        \<and> rec_image_url r' = (if art_image_url art = Undefined then rec_image_url r else art_image_url art)
        \<and> rec_source_id r' = (if art_source_id art = Undefined then rec_source_id r else art_source_id art)
        \<and> rec_source_priority r' = (if art_source_priority art = Undefined then rec_source_priority r else art_source_priority art)
        \<and> rec_source_url r' = (if art_source_url art = Undefined then rec_source_url r else art_source_url art)
        \<and> rec_source_icon r' = (if art_source_icon art = Undefined then rec_source_icon r else art_source_icon art)
        \<and> rec_language r' = (if art_language art = Undefined then rec_language r else art_language art)
        \<and> rec_ai_tag r' = (if art_ai_tag art = Undefined then rec_ai_tag r else art_ai_tag art)
        \<and> rec_sentiment r' = (if art_sentiment art = Undefined then rec_sentiment r else art_sentiment art)
        \<and> rec_sentiment_stats r' = (if art_sentiment_stats art = Undefined then rec_sentiment_stats r else art_sentiment_stats art)
        \<and> rec_ai_region r' = (if art_ai_region art = Undefined then rec_ai_region r else art_ai_region art)
        \<and> rec_ai_org r' = (if art_ai_org art = Undefined then rec_ai_org r else art_ai_org art)
        \<and> rec_duplicate r' = (if art_duplicate art = Undefined then rec_duplicate r else art_duplicate art)
        \<and> rec_createdAt r' = rec_createdAt r
        \<and> rec_updatedAt r' = now"
    unfolding d'
    apply (rule exI [of _ "apply_set ?dc pd now r"])
    apply (simp only: f ids pd' simp_thms)
    apply (simp add: apply_set_def build_doc_def set_field_if)
    done
  then show ?thesis
    using job_keeps [where d = d0 and e = e0 and ck = clock and response = response] by blast
qed

lemma stored_more:
  "rec_article_id stored_a1 = ''a1''"
  "rec_article_id stored_a2 = ''a2''"
  "rec_createdAt stored_a1 = 1000"
  "rec_createdAt stored_a2 = 1001"
  "rec_updatedAt stored_a1 = 1000"
  "rec_updatedAt stored_a2 = 1001"
  "rec_title stored_a1 = Val ''Election results''"
  "rec_title stored_a2 = Undefined"
  "rec_country stored_a1 = [''us'']"
  by (simp_all add: stored_a1_def stored_a2_def insert_doc_def build_doc_def
      art_a1_def art_a2_def bare_article_def or_empty_def)

lemma bare_doc:
  "doc_article_id (build_doc e (bare_article k)) = k"
  "doc_pubDate (build_doc e (bare_article k)) = None"
  "art_title (bare_article k) = Undefined"
  "art_country (bare_article k) = Undefined"
  "art_article_id (bare_article k) = k"
  by (simp_all add: build_doc_def bare_article_def pubDate_of_def)

lemma upsert_bare_a1:
  "Article_updateOne db_two 5000 (build_doc sample_env (bare_article ''a1''))
     = Inr (db_two\<lparr>docs := [apply_set (build_doc sample_env (bare_article ''a1'')) None 5000 stored_a1,
                            stored_a2]\<rparr>,
            \<lparr>upsertedCount = 0, modifiedCount = 1\<rparr>)"
proof -
  have "apply_set (build_doc sample_env (bare_article ''a1'')) None 5000 stored_a1 \<noteq> stored_a1"
    by (rule apply_set_changes) (simp add: stored_more)
  then show ?thesis
    by (simp add: Article_updateOne_def bare_doc db_two_eq stored_more)
qed

theorem upsert_sets_supplied_fields_witness:
  "\<exists>r'. find (\<lambda>r. rec_article_id r = ''a1'')
          [apply_set (build_doc sample_env (bare_article ''a1'')) None 5000 stored_a1, stored_a2]
          = Some r'
      \<and> rec_title r' = Val ''Election results''
      \<and> rec_country r' = []
      \<and> rec_createdAt r' = 1000
      \<and> rec_updatedAt r' = 5000"
proof -
  let ?d' = "db_two\<lparr>docs := [apply_set (build_doc sample_env (bare_article ''a1'')) None 5000 stored_a1,
                              stored_a2]\<rparr>"
  have f: "find (\<lambda>r. rec_article_id r = art_article_id (bare_article ''a1'')) (docs db_two)
             = Some stored_a1"
    by (simp add: db_two_eq stored_more bare_doc)
  from upsert_sets_supplied_fields
    [OF upsert_bare_a1 f, where ?d0.0 = empty_db and ?e0.0 = sample_env
       and clock = "\<lambda>i. 0" and response = "FetchResolved None", THEN conjunct1]
  obtain r' where
    "find (\<lambda>r. rec_article_id r = art_article_id (bare_article ''a1'')) (docs ?d') = Some r'"
    "rec_country r' = or_empty (art_country (bare_article ''a1''))"
    "rec_title r' = (if art_title (bare_article ''a1'') = Undefined then rec_title stored_a1
                     else art_title (bare_article ''a1''))"
    "rec_createdAt r' = rec_createdAt stored_a1"
    "rec_updatedAt r' = 5000"
    by blast
  then show ?thesis
    by (intro exI [of _ r']) (simp add: bare_doc stored_more or_empty_def)
qed

text \<open>
  The store of two documents after a run on a payload for \<open>a1\<close> that has no title:
  the stored title of \<open>a1\<close> is still there, and so is its \<open>createdAt\<close>.
\<close>

theorem omitted_field_kept_counterexample:
  "art_title (bare_article ''a1'') = Undefined
 \<and> map rec_title (docs db_two) = [Val ''Election results'', Undefined]
 \<and> map rec_title
      (docs (rr_db (fetchAndStoreNews sample_env (\<lambda>i. 5000)
                      (FetchResolved (Some [bare_article ''a1''])) db_two)))
     = [Val ''Election results'', Undefined]
 \<and> map rec_createdAt
      (docs (rr_db (fetchAndStoreNews sample_env (\<lambda>i. 5000)
                      (FetchResolved (Some [bare_article ''a1''])) db_two)))
     = [1000, 1001]"
proof -
  have run: "rr_db (fetchAndStoreNews sample_env (\<lambda>i. 5000)
                      (FetchResolved (Some [bare_article ''a1''])) db_two)
    = db_two\<lparr>docs := [apply_set (build_doc sample_env (bare_article ''a1'')) None 5000 stored_a1,
                       stored_a2]\<rparr>"
    by (simp add: fetchAndStoreNews_def upsert_bare_a1)
  show ?thesis
    unfolding run
    by (simp add: bare_doc stored_more db_two_eq apply_set_def build_doc_def set_field_def)
qed

section \<open>Running the job twice\<close>

text \<open>
  C1. Two runs of the job on the same batch, the first one complete, on a store
  without two documents of one \<open>article_id\<close>, the clock moving on from each upsert
  to the next: after the second run no two documents have the same \<open>article_id\<close>,
  the identifiers are those after the first run, and the second run counts every
  article of the batch as updated and none as inserted. (With
  \<open>{ timestamps: true }\<close> an upsert of an identical payload still changes
  \<open>updatedAt\<close>, so the store reports the document as modified.)
\<close>

theorem second_run_updates_only:
  assumes "distinct (map rec_article_id (docs d))"
    and "rr_log (fetchAndStoreNews e ck1 (FetchResolved (Some batch)) d)
           = [LogFetching, LogDone i1 u1 n1]"
    and "\<forall>i j. i < length batch \<and> j < length batch \<longrightarrow> ck1 i < ck2 j"
    and "\<forall>i j. i < j \<and> j < length batch \<longrightarrow> ck2 i < ck2 j"
  shows "distinct (map rec_article_id
           (docs (rr_db (fetchAndStoreNews e ck2 (FetchResolved (Some batch))
              (rr_db (fetchAndStoreNews e ck1 (FetchResolved (Some batch)) d))))))
       \<and> map rec_article_id
           (docs (rr_db (fetchAndStoreNews e ck2 (FetchResolved (Some batch))
              (rr_db (fetchAndStoreNews e ck1 (FetchResolved (Some batch)) d)))))
         = map rec_article_id (docs (rr_db (fetchAndStoreNews e ck1 (FetchResolved (Some batch)) d)))
       \<and> rr_log (fetchAndStoreNews e ck2 (FetchResolved (Some batch))
              (rr_db (fetchAndStoreNews e ck1 (FetchResolved (Some batch)) d)))
         = [LogFetching, LogDone 0 (length batch) (length batch)]"
proof -
  let ?r1 = "fetchAndStoreNews e ck1 (FetchResolved (Some batch)) d"
  from assms(2) have ne: "batch \<noteq> []"
    by (auto simp add: fetchAndStoreNews_def)
  with assms(2) obtain d1 where
    loop1: "upsert_loop e ck1 0 batch d 0 0 = Inr (d1, i1, u1)" and d1: "rr_db ?r1 = d1"
    by (auto simp add: fetchAndStoreNews_def split: sum.splits)
  note first = upsert_loop_first_run [OF loop1 assms(1)]
  from first have dist1: "distinct (map rec_article_id (docs d1))" by blast
  from first ne have f1: "fault d1 = None" by blast
  from first have cast: "\<forall>a\<in>set batch. \<exists>pd. cast_date (doc_pubDate (build_doc e a)) = Inr pd"
    by blast
  from first have sub: "art_article_id ` set batch \<subseteq> set (map rec_article_id (docs d1))"
    by blast
  from first have stamped: "\<forall>r'\<in>set (docs d1). rec_article_id r' \<in> art_article_id ` set batch \<longrightarrow>
             (\<exists>j. 0 \<le> j \<and> j < 0 + length batch \<and> rec_updatedAt r' = ck1 j)"
    by blast
  have fresh: "\<forall>r\<in>set (docs d1). rec_article_id r \<in> art_article_id ` set batch \<longrightarrow>
           (\<forall>j. 0 \<le> j \<and> j < 0 + length batch \<longrightarrow> rec_updatedAt r \<noteq> ck2 j)"
  proof (intro ballI impI allI)
    fix r j
    assume "r \<in> set (docs d1)" "rec_article_id r \<in> art_article_id ` set batch"
      and j: "0 \<le> j \<and> j < 0 + length batch"
    with stamped obtain j' where "j' < length batch" "rec_updatedAt r = ck1 j'" by auto
    with assms(3) j show "rec_updatedAt r \<noteq> ck2 j" by fastforce
  qed
  have inj: "\<forall>j j'. 0 \<le> j \<and> j < j' \<and> j' < 0 + length batch \<longrightarrow> ck2 j \<noteq> ck2 j'"
    using assms(4) by fastforce
  from upsert_loop_second_run [OF dist1 f1 cast sub fresh inj, of 0 0]
  obtain d2 where loop2: "upsert_loop e ck2 0 batch d1 0 0 = Inr (d2, 0, length batch)"
    and ids2: "map rec_article_id (docs d2) = map rec_article_id (docs d1)"
    by auto
  have r2: "fetchAndStoreNews e ck2 (FetchResolved (Some batch)) d1
              = \<lparr>rr_db = d2, rr_log = [LogFetching, LogDone 0 (length batch) (length batch)]\<rparr>"
    using ne loop2 by (simp add: fetchAndStoreNews_def)
  show ?thesis
    unfolding d1 r2 using dist1 ids2 by simp
qed

lemma first_run_log:
  "rr_log (fetchAndStoreNews sample_env (\<lambda>i. 1000 + int i)
             (FetchResolved (Some [art_a1, art_a2])) empty_db)
     = [LogFetching, LogDone 2 0 2]"
  by (simp add: fetchAndStoreNews_def art_a1_def art_a2_def bare_article_def
      build_doc_def Article_updateOne_def empty_db_def sample_env_def pubDate_of_def new_Date_def
      or_empty_def or_news_def rec_article_id_insert_doc)

theorem second_run_updates_only_witness:
  "rr_log (fetchAndStoreNews sample_env (\<lambda>i. 5000 + int i)
             (FetchResolved (Some [art_a1, art_a2])) db_two)
     = [LogFetching, LogDone 0 2 2]
 \<and> map rec_article_id
      (docs (rr_db (fetchAndStoreNews sample_env (\<lambda>i. 5000 + int i)
                      (FetchResolved (Some [art_a1, art_a2])) db_two)))
     = [''a1'', ''a2'']"
proof -
  have 1: "distinct (map rec_article_id (docs empty_db))" by (simp add: empty_db_def)
  have 3: "\<forall>i j. i < length [art_a1, art_a2] \<and> j < length [art_a1, art_a2]
              \<longrightarrow> 1000 + int i < 5000 + int j"
    by auto
  have 4: "\<forall>i j. i < j \<and> j < length [art_a1, art_a2] \<longrightarrow> 5000 + int i < 5000 + int j"
    by auto
  from second_run_updates_only
    [of empty_db sample_env "\<lambda>i. 1000 + int i" "[art_a1, art_a2]" 2 0 2 "\<lambda>i. 5000 + int i",
     OF 1 first_run_log 3 4]
  show ?thesis
    by (simp add: db_two_def [symmetric]) (simp add: db_two_eq stored_more)
qed

section \<open>A failed fetch\<close>

lemma upsert_loop_succeeds:
  assumes "fault d = None"
    and "\<forall>a\<in>set arts. \<exists>pd. cast_date (doc_pubDate (build_doc e a)) = Inr pd"
  shows "\<exists>d' ins' upd'. upsert_loop e ck i arts d ins upd = Inr (d', ins', upd')"
  using assms
proof (induction arts arbitrary: i d ins upd)
  case Nil
  then show ?case by simp
next
  case (Cons a arts)
  from Cons.prems(2) obtain pd where pd: "cast_date (doc_pubDate (build_doc e a)) = Inr pd"
    by auto
  from updateOne_succeeds [OF Cons.prems(1) pd] obtain d1 res where
    u: "Article_updateOne d (ck i) (build_doc e a) = Inr (d1, res)"
    by blast
  have f1: "fault d1 = None" using updateOne_Inr(3) [OF u] .
  have rest: "\<forall>a\<in>set arts. \<exists>pd. cast_date (doc_pubDate (build_doc e a)) = Inr pd"
    using Cons.prems(2) by simp
  note IH = Cons.IH [OF f1 rest]
  show ?case
    using u IH [of "Suc i" "ins + 1" upd] IH [of "Suc i" ins "upd + 1"] IH [of "Suc i" ins upd]
    by simp
qed

text \<open>
  C4 (as amended). A run of \<open>fetchAndStoreNews\<close> whose request to the feed is
  rejected (a network error, a response with an error status) logs the error and
  returns, and the store is what it was. A response whose body did not parse, or
  has no list of results, is no rejection: the run logs that no articles were
  returned, not an error, and returns, and the store is what it was. The job goes
  on: the next run, on a store that answers and with a batch whose dates cast,
  upserts its batch and logs its counts.
\<close>

theorem failed_fetch_leaves_store:
  "rr_db (fetchAndStoreNews e clock (FetchRejected msg) d) = d
 \<and> rr_log (fetchAndStoreNews e clock (FetchRejected msg) d)
     = [LogFetching, LogFetchError (Inl msg)]
 \<and> rr_db (fetchAndStoreNews e clock (FetchResolved None) d) = d
 \<and> rr_log (fetchAndStoreNews e clock (FetchResolved None) d) = [LogFetching, LogNoArticles]
 \<and> (fault d = None \<and> distinct (map rec_article_id (docs d)) \<and> batch \<noteq> []
      \<and> (\<forall>a\<in>set batch. \<exists>pd. cast_date (doc_pubDate (build_doc e' a)) = Inr pd)
     \<longrightarrow>
       (\<exists>ins upd.
          rr_log (fetchAndStoreNews e' clock' (FetchResolved (Some batch))
                    (rr_db (fetchAndStoreNews e clock (FetchRejected msg) d)))
            = [LogFetching, LogDone ins upd (length batch)])
     \<and> art_article_id ` set batch
         \<subseteq> rec_article_id `
             set (docs (rr_db (fetchAndStoreNews e' clock' (FetchResolved (Some batch))
                                 (rr_db (fetchAndStoreNews e clock (FetchRejected msg) d))))))"
proof -
  have failed: "rr_db (fetchAndStoreNews e clock (FetchRejected msg) d) = d"
    by (simp add: fetchAndStoreNews_def)
  have next_run:
    "(\<exists>ins upd.
        rr_log (fetchAndStoreNews e' clock' (FetchResolved (Some batch)) d)
          = [LogFetching, LogDone ins upd (length batch)])
     \<and> art_article_id ` set batch
         \<subseteq> rec_article_id `
             set (docs (rr_db (fetchAndStoreNews e' clock' (FetchResolved (Some batch)) d)))"
    if ok: "fault d = None" and dist: "distinct (map rec_article_id (docs d))"
      and ne: "batch \<noteq> []"
      and cast: "\<forall>a\<in>set batch. \<exists>pd. cast_date (doc_pubDate (build_doc e' a)) = Inr pd"
  proof -
    from upsert_loop_succeeds [OF ok cast, of clock' 0 0 0]
    obtain d' ins upd where loop: "upsert_loop e' clock' 0 batch d 0 0 = Inr (d', ins, upd)"
      by blast
    from upsert_loop_first_run [OF loop dist]
    have "set (map rec_article_id (docs d'))
            = set (map rec_article_id (docs d)) \<union> art_article_id ` set batch"
      by blast
    then have ids: "art_article_id ` set batch \<subseteq> rec_article_id ` set (docs d')"
      by auto
    have run: "fetchAndStoreNews e' clock' (FetchResolved (Some batch)) d
                 = \<lparr>rr_db = d', rr_log = [LogFetching, LogDone ins upd (length batch)]\<rparr>"
      using ne loop by (simp add: fetchAndStoreNews_def)
    show ?thesis unfolding run using ids by simp
  qed
  show ?thesis
    unfolding failed using next_run by (simp add: fetchAndStoreNews_def)
qed

lemma art_a3_doc:
  "art_article_id art_a3 = ''a3''"
  "cast_date (doc_pubDate (build_doc sample_env art_a3)) = Inr None"
  by (simp_all add: art_a3_def bare_article_def build_doc_def pubDate_of_def)

theorem failed_fetch_leaves_store_witness:
  "rr_db (fetchAndStoreNews sample_env (\<lambda>i. 3000) (FetchRejected ''timeout'') db_two) = db_two
 \<and> rr_log (fetchAndStoreNews sample_env (\<lambda>i. 3000) (FetchRejected ''timeout'') db_two)
     = [LogFetching, LogFetchError (Inl ''timeout'')]
 \<and> (\<exists>ins upd.
       rr_log (fetchAndStoreNews sample_env (\<lambda>i. 4000 + int i) (FetchResolved (Some [art_a3]))
                 (rr_db (fetchAndStoreNews sample_env (\<lambda>i. 3000) (FetchRejected ''timeout'')
                           db_two)))
         = [LogFetching, LogDone ins upd 1])
 \<and> ''a3'' \<in> rec_article_id `
       set (docs (rr_db (fetchAndStoreNews sample_env (\<lambda>i. 4000 + int i)
                           (FetchResolved (Some [art_a3]))
                           (rr_db (fetchAndStoreNews sample_env (\<lambda>i. 3000)
                                     (FetchRejected ''timeout'') db_two)))))"
proof -
  have h: "fault db_two = None \<and> distinct (map rec_article_id (docs db_two)) \<and> [art_a3] \<noteq> []
      \<and> (\<forall>a\<in>set [art_a3]. \<exists>pd. cast_date (doc_pubDate (build_doc sample_env a)) = Inr pd)"
    by (simp add: db_two_eq stored_more art_a3_doc)
  note T = failed_fetch_leaves_store
    [of sample_env "\<lambda>i. 3000" "''timeout''" db_two "[art_a3]" sample_env "\<lambda>i. 4000 + int i"]
  from T have a:
    "rr_db (fetchAndStoreNews sample_env (\<lambda>i. 3000) (FetchRejected ''timeout'') db_two) = db_two"
    "rr_log (fetchAndStoreNews sample_env (\<lambda>i. 3000) (FetchRejected ''timeout'') db_two)
       = [LogFetching, LogFetchError (Inl ''timeout'')]"
    by blast+
  from T h have b:
    "\<exists>ins upd.
       rr_log (fetchAndStoreNews sample_env (\<lambda>i. 4000 + int i) (FetchResolved (Some [art_a3]))
                 (rr_db (fetchAndStoreNews sample_env (\<lambda>i. 3000) (FetchRejected ''timeout'')
                           db_two)))
         = [LogFetching, LogDone ins upd (length [art_a3])]"
    "art_article_id ` set [art_a3]
       \<subseteq> rec_article_id `
           set (docs (rr_db (fetchAndStoreNews sample_env (\<lambda>i. 4000 + int i)
                               (FetchResolved (Some [art_a3]))
                               (rr_db (fetchAndStoreNews sample_env (\<lambda>i. 3000)
                                         (FetchRejected ''timeout'') db_two)))))"
    by blast+
  from b(2) have c:
    "''a3'' \<in> rec_article_id `
       set (docs (rr_db (fetchAndStoreNews sample_env (\<lambda>i. 4000 + int i)
                           (FetchResolved (Some [art_a3]))
                           (rr_db (fetchAndStoreNews sample_env (\<lambda>i. 3000)
                                     (FetchRejected ''timeout'') db_two)))))"
    by (simp add: art_a3_doc)
  from b(1) have d:
    "\<exists>ins upd.
       rr_log (fetchAndStoreNews sample_env (\<lambda>i. 4000 + int i) (FetchResolved (Some [art_a3]))
                 (rr_db (fetchAndStoreNews sample_env (\<lambda>i. 3000) (FetchRejected ''timeout'')
                           db_two)))
         = [LogFetching, LogDone ins upd 1]"
    by simp
  from a c d show ?thesis by blast
qed

text \<open>
  A response whose body did not parse, on the store of two documents: the run logs
  that no articles were returned, and no error.
\<close>

theorem unparsed_body_counterexample:
  "rr_log (fetchAndStoreNews sample_env (\<lambda>i. 3000) (FetchResolved None) db_two)
     = [LogFetching, LogNoArticles]"
  by (simp add: fetchAndStoreNews_def)

end
